theory Spec2Isabelle
  imports Complex_Main
begin

section \<open>Common types (Common/Types/CommonTypes.h)\<close>

text \<open>
  The weapon control system drives each weapon through a control state machine, recomputes
  engagement plans and stores mine drop plans. This theory embeds the weapon
  (\<^verbatim>\<open>WeaponBase\<close>), the engagement managers, the launch tube manager's emergency stop and
  the mine drop plan service, function by function, and proves what they do.

  The DDS message header is not part of the sources. The enumerations are taken from the
  cases of \<^verbatim>\<open>StateToString\<close> and \<^verbatim>\<open>WeaponKindToString\<close>.
\<close>

datatype EN_WPN_CTRL_STATE =
    WPN_CTRL_STATE_OFF
  | WPN_CTRL_STATE_POC
  | WPN_CTRL_STATE_ON
  | WPN_CTRL_STATE_RTL
  | WPN_CTRL_STATE_LAUNCH
  | WPN_CTRL_STATE_POST_LAUNCH
  | WPN_CTRL_STATE_ABORT

datatype EN_WPN_KIND =
    WPN_KIND_ALM
  | WPN_KIND_ASM
  | WPN_KIND_AAM
  | WPN_KIND_WGT
  | WPN_KIND_M_MINE
  | WPN_KIND_NA

fun StateToString :: "EN_WPN_CTRL_STATE \<Rightarrow> string" where
  "StateToString WPN_CTRL_STATE_OFF = ''OFF''"
| "StateToString WPN_CTRL_STATE_POC = ''POC''"
| "StateToString WPN_CTRL_STATE_ON = ''ON''"
| "StateToString WPN_CTRL_STATE_RTL = ''RTL''"
| "StateToString WPN_CTRL_STATE_LAUNCH = ''LAUNCH''"
| "StateToString WPN_CTRL_STATE_POST_LAUNCH = ''POST_LAUNCH''"
| "StateToString WPN_CTRL_STATE_ABORT = ''ABORT''"

text \<open>
  \<^verbatim>\<open>Result<void>\<close> holds either nothing or an \<^verbatim>\<open>ErrorInfo\<close> (message and code). The
  source has no error kinds, only messages; \<^verbatim>\<open>failure(message)\<close> uses the code \<open>-1\<close>.
\<close>

record ErrorInfo =
  message :: string
  code :: int

type_synonym 'a Result = "ErrorInfo + 'a"

definition failure :: "string \<Rightarrow> 'a Result" where
  "failure msg = Inl \<lparr>message = msg, code = -1\<rparr>"

definition success :: "unit Result" where
  "success = Inr ()"

definition isSuccess :: "'a Result \<Rightarrow> bool" where
  "isSuccess r = (case r of Inl _ \<Rightarrow> False | Inr _ \<Rightarrow> True)"

text \<open>\<^verbatim>\<open>std::to_string\<close> on an unsigned number: its decimal digits.\<close>

definition digit_char :: "nat \<Rightarrow> char" where
  "digit_char d = ''0123456789'' ! d"

function to_string :: "nat \<Rightarrow> string" where
  "to_string n = (if n < 10 then [digit_char n] else to_string (n div 10) @ [digit_char (n mod 10)])"
  by pat_completeness auto
termination
  by (relation "measure (\<lambda>n. n)") auto

declare to_string.simps [simp del]

subsection \<open>Cancellation tokens and the shared memory they live in\<close>

text \<open>
  A \<^verbatim>\<open>CancellationToken\<close> is a shared pointer to an atomic flag. Copies of a token share
  the flag, so a token is the address of its flag and the flags live in a store.
  The store also counts the 50 ms slices slept so far (\<open>clock\<close>) and keeps, in order, the
  effects the weapon has on the outside: cancelling a token, exchanging the control state,
  and the calls made on the observers.
\<close>

type_synonym token = nat

datatype event =
    TokenCancelled token
  | StateSet EN_WPN_CTRL_STATE EN_WPN_CTRL_STATE
  | StateStored EN_WPN_CTRL_STATE EN_WPN_CTRL_STATE
  | OnStateChanged nat nat EN_WPN_CTRL_STATE EN_WPN_CTRL_STATE
  | OnLaunchStatusChanged nat nat bool
  | Requested nat EN_WPN_CTRL_STATE token bool

record sys =
  flags :: "token \<Rightarrow> bool"
  fresh :: token
  clock :: nat
  log :: "event list"

text \<open>
  Another thread that holds a copy of a token may cancel it while the weapon sleeps.
  A schedule gives, for each token, the slice (counted by \<open>clock\<close>) during which that
  happens, if it happens at all. The flag is monotonic, so one instant per token is enough.
\<close>

type_synonym schedule = "token \<Rightarrow> nat option"

definition new_token :: "sys \<Rightarrow> token \<times> sys" where
  "new_token s = (fresh s, s\<lparr>flags := (flags s)(fresh s := False), fresh := Suc (fresh s)\<rparr>)"

definition cancel :: "token \<Rightarrow> sys \<Rightarrow> sys" where
  "cancel t s = s\<lparr>flags := (flags s)(t := True), log := log s @ [TokenCancelled t]\<rparr>"

definition isCancelled :: "schedule \<Rightarrow> token \<Rightarrow> sys \<Rightarrow> bool" where
  "isCancelled ext t s =
     (flags s t \<or> (case ext t of None \<Rightarrow> False | Some k \<Rightarrow> k < clock s))"

definition sleep_for :: "sys \<Rightarrow> sys" where
  "sleep_for s = s\<lparr>clock := Suc (clock s)\<rparr>"

section \<open>Positions, tracks and plans (the DDS message types)\<close>

text \<open>
  Modelled from the spec: the DDS message header \<^verbatim>\<open>dds_message/AIEP_AIEP_.hpp\<close> is not
  among the sources. The records below have the members the sources read and write, with
  the names used there. Latitude, longitude, depth and altitude are floating-point numbers
  in the source and real numbers here; the only operations on them are copies and
  comparisons with constants. Counts and identifiers are natural numbers. The waypoints of
  a plan (\<^verbatim>\<open>stWaypoint()\<close>, indexed up to 7 by the sources) are a list of 8 entries.
\<close>

record ST_3D_GEODETIC_POSITION =
  dLatitude :: real
  dLongitude :: real
  fDepth :: real

record SGEODETIC_POSITION =
  dLatitude :: real
  dLongitude :: real
  fAltitude :: real

record ST_WEAPON_WAYPOINT =
  dLatitude :: real
  dLongitude :: real
  fDepth :: real

record TRKMGR_SYSTEMTARGET_INFO =
  unTargetSystemID :: nat
  stGeodeticPosition :: ST_3D_GEODETIC_POSITION

record ST_M_MINE_PLAN_INFO =
  sListID :: nat
  usDroppingPlanNumber :: nat
  stLaunchPos :: ST_WEAPON_WAYPOINT
  stDropPos :: ST_WEAPON_WAYPOINT
  usWaypointCnt :: nat
  stWaypoint :: "ST_WEAPON_WAYPOINT list"

definition zero_position :: ST_3D_GEODETIC_POSITION where
  "zero_position =
     \<lparr>ST_3D_GEODETIC_POSITION.dLatitude = 0, ST_3D_GEODETIC_POSITION.dLongitude = 0,
      ST_3D_GEODETIC_POSITION.fDepth = 0\<rparr>"

definition zero_waypoint :: ST_WEAPON_WAYPOINT where
  "zero_waypoint = \<lparr>dLatitude = 0, dLongitude = 0, fDepth = 0\<rparr>"

definition empty_plan :: ST_M_MINE_PLAN_INFO where
  "empty_plan = \<lparr>sListID = 0, usDroppingPlanNumber = 0, stLaunchPos = zero_waypoint,
                  stDropPos = zero_waypoint, usWaypointCnt = 0,
                  stWaypoint = replicate 8 zero_waypoint\<rparr>"

record EngagementPlanResult =
  tubeNumber :: nat
  weaponKind :: EN_WPN_KIND
  isValid :: bool
  totalTime_sec :: real
  timeToTarget_sec :: real
  nextWaypointIndex :: nat
  timeToNextWaypoint_sec :: real
  trajectory :: "ST_3D_GEODETIC_POSITION list"
  waypoints :: "ST_WEAPON_WAYPOINT list"
  currentPosition :: ST_3D_GEODETIC_POSITION
  launchPosition :: ST_3D_GEODETIC_POSITION
  targetPosition :: ST_3D_GEODETIC_POSITION

definition EngagementPlanResult_default :: EngagementPlanResult where
  "EngagementPlanResult_default =
     \<lparr>tubeNumber = 0, weaponKind = WPN_KIND_NA, isValid = False, totalTime_sec = 0,
      timeToTarget_sec = 0, nextWaypointIndex = 0, timeToNextWaypoint_sec = 0,
      trajectory = [], waypoints = [], currentPosition = zero_position,
      launchPosition = zero_position, targetPosition = zero_position\<rparr>"

section \<open>Engagement managers (Core/EngagementManagers/IEngagementManager.h)\<close>

text \<open>
  \<^verbatim>\<open>EngagementManagerBase\<close> and the two classes derived from it. The members for the axis
  centre, own ship and launch start time are written by setters and by \<^verbatim>\<open>update\<close> only;
  no function below reads them, and they are left out, as is the base class's own
  \<^verbatim>\<open>m_targetPosition\<close>, which the missile class hides behind a member of the same name.
\<close>

record EngagementManagerBase =
  m_tubeNumber :: nat
  m_weaponKind :: EN_WPN_KIND
  m_launched :: bool
  m_engagementResult :: EngagementPlanResult
  m_waypoints :: "ST_WEAPON_WAYPOINT list"
  m_launchPosition :: ST_3D_GEODETIC_POSITION
  m_launchTime :: real

record MineEngagementManagerBase = EngagementManagerBase +
  m_dropPlanListNumber :: nat
  m_dropPlanNumber :: nat
  m_dropPlan :: ST_M_MINE_PLAN_INFO

text \<open>
  The classes that implement the missile manager differ in \<^verbatim>\<open>calculateTrajectory\<close> only;
  \<open>missile_class\<close> says which one an object is.
\<close>

datatype missile_class = ALMEngagementManager | ASMEngagementManager | AAMEngagementManager

record MissileEngagementManagerBase = EngagementManagerBase +
  missile_class :: missile_class
  m_systemTargetId :: nat
  m_targetPosition :: SGEODETIC_POSITION
  m_targetInfo :: TRKMGR_SYSTEMTARGET_INFO
  m_hasValidTarget :: bool

definition EngagementManagerBase_initialize ::
  "nat \<Rightarrow> EN_WPN_KIND \<Rightarrow> 'a EngagementManagerBase_scheme
     \<Rightarrow> unit Result \<times> 'a EngagementManagerBase_scheme" where
  "EngagementManagerBase_initialize tube kind m =
     (success,
      m\<lparr>m_tubeNumber := tube, m_weaponKind := kind, m_launched := False,
        m_engagementResult :=
          (m_engagementResult m)\<lparr>tubeNumber := tube, weaponKind := kind, isValid := False\<rparr>\<rparr>)"

definition EngagementManagerBase_reset ::
  "'a EngagementManagerBase_scheme \<Rightarrow> 'a EngagementManagerBase_scheme" where
  "EngagementManagerBase_reset m =
     m\<lparr>m_launched := False, m_launchTime := 0,
       m_engagementResult :=
         EngagementPlanResult_default\<lparr>tubeNumber := m_tubeNumber m,
                                       weaponKind := m_weaponKind m\<rparr>,
       m_waypoints := []\<rparr>"

subsection \<open>The missile manager\<close>

definition MissileEngagementManager ::
  "missile_class \<Rightarrow> EN_WPN_KIND \<Rightarrow> MissileEngagementManagerBase" where
  "MissileEngagementManager cls kind =
     \<lparr>m_tubeNumber = 0, m_weaponKind = kind, m_launched = False,
      m_engagementResult = EngagementPlanResult_default, m_waypoints = [],
      m_launchPosition = zero_position, m_launchTime = 0,
      missile_class = cls, m_systemTargetId = 0,
      m_targetPosition =
        \<lparr>SGEODETIC_POSITION.dLatitude = 0, SGEODETIC_POSITION.dLongitude = 0, fAltitude = 0\<rparr>,
      m_targetInfo = \<lparr>unTargetSystemID = 0, stGeodeticPosition = zero_position\<rparr>,
      m_hasValidTarget = False\<rparr>"

definition hasValidTarget :: "MissileEngagementManagerBase \<Rightarrow> bool" where
  "hasValidTarget m = m_hasValidTarget m"

text \<open>
  \<^verbatim>\<open>calculateTrajectory\<close> of the three missile classes (the total time is 100, 80 or 60
  seconds). It stores a target position of type \<^verbatim>\<open>SGEODETIC_POSITION\<close> where a
  \<^verbatim>\<open>ST_3D_GEODETIC_POSITION\<close> is expected; that conversion is declared in the missing
  header and is the parameter \<open>to_3d\<close>.
\<close>

definition Missile_calculateTrajectory ::
  "(SGEODETIC_POSITION \<Rightarrow> ST_3D_GEODETIC_POSITION) \<Rightarrow> MissileEngagementManagerBase
     \<Rightarrow> unit Result \<times> MissileEngagementManagerBase" where
  "Missile_calculateTrajectory to_3d m =
     (let r = (m_engagementResult m)
                \<lparr>isValid := hasValidTarget m,
                 totalTime_sec := (case missile_class m of
                                     ALMEngagementManager \<Rightarrow> 100
                                   | ASMEngagementManager \<Rightarrow> 80
                                   | AAMEngagementManager \<Rightarrow> 60),
                 tubeNumber := m_tubeNumber m, weaponKind := m_weaponKind m\<rparr>;
          r1 = (if hasValidTarget m
                then r\<lparr>targetPosition := to_3d (m_targetPosition m),
                       trajectory := [m_launchPosition m, to_3d (m_targetPosition m)]\<rparr>
                else r)
      in (success, m\<lparr>m_engagementResult := r1\<rparr>))"

definition Missile_calculateEngagementPlan ::
  "(SGEODETIC_POSITION \<Rightarrow> ST_3D_GEODETIC_POSITION) \<Rightarrow> MissileEngagementManagerBase
     \<Rightarrow> unit Result \<times> MissileEngagementManagerBase" where
  "Missile_calculateEngagementPlan to_3d m =
     (if \<not> m_hasValidTarget m then
        (failure ''No valid target set'',
         m\<lparr>m_engagementResult := (m_engagementResult m)\<lparr>isValid := False\<rparr>\<rparr>)
      else Missile_calculateTrajectory to_3d m)"

definition setTargetPosition ::
  "(SGEODETIC_POSITION \<Rightarrow> ST_3D_GEODETIC_POSITION) \<Rightarrow> SGEODETIC_POSITION
     \<Rightarrow> MissileEngagementManagerBase \<Rightarrow> unit Result \<times> MissileEngagementManagerBase" where
  "setTargetPosition to_3d targetPos m =
     Missile_calculateEngagementPlan to_3d
       (m\<lparr>m_targetPosition := targetPos, m_systemTargetId := 0, m_hasValidTarget := True\<rparr>)"

definition setSystemTarget ::
  "nat \<Rightarrow> MissileEngagementManagerBase \<Rightarrow> unit Result \<times> MissileEngagementManagerBase" where
  "setSystemTarget systemTargetId m =
     (success, m\<lparr>m_systemTargetId := systemTargetId, m_hasValidTarget := False\<rparr>)"

definition updateTargetInfo ::
  "(SGEODETIC_POSITION \<Rightarrow> ST_3D_GEODETIC_POSITION) \<Rightarrow> TRKMGR_SYSTEMTARGET_INFO
     \<Rightarrow> MissileEngagementManagerBase \<Rightarrow> MissileEngagementManagerBase" where
  "updateTargetInfo to_3d target m =
     (if m_systemTargetId m \<noteq> 0 \<and> unTargetSystemID target = m_systemTargetId m then
        snd (Missile_calculateEngagementPlan to_3d
          (m\<lparr>m_targetInfo := target,
             m_targetPosition :=
               \<lparr>SGEODETIC_POSITION.dLatitude =
                  ST_3D_GEODETIC_POSITION.dLatitude (stGeodeticPosition target),
                SGEODETIC_POSITION.dLongitude =
                  ST_3D_GEODETIC_POSITION.dLongitude (stGeodeticPosition target),
                fAltitude = - ST_3D_GEODETIC_POSITION.fDepth (stGeodeticPosition target)\<rparr>,
             m_hasValidTarget := True\<rparr>))
      else m)"

definition Missile_updateWaypoints ::
  "(SGEODETIC_POSITION \<Rightarrow> ST_3D_GEODETIC_POSITION) \<Rightarrow> ST_WEAPON_WAYPOINT list
     \<Rightarrow> MissileEngagementManagerBase \<Rightarrow> unit Result \<times> MissileEngagementManagerBase" where
  "Missile_updateWaypoints to_3d wps m =
     (if length wps > 8 then (failure ''Too many waypoints for missile (max 8)'', m)
      else Missile_calculateEngagementPlan to_3d (m\<lparr>m_waypoints := wps\<rparr>))"

text \<open>The calls a missile manager receives, and a run of them on a new manager.\<close>

datatype missile_op =
    SetTargetPosition SGEODETIC_POSITION
  | SetSystemTarget nat
  | UpdateTargetInfo TRKMGR_SYSTEMTARGET_INFO
  | UpdateWaypoints "ST_WEAPON_WAYPOINT list"
  | CalculateEngagementPlan
  | Initialize nat EN_WPN_KIND
  | Reset

fun missile_step ::
  "(SGEODETIC_POSITION \<Rightarrow> ST_3D_GEODETIC_POSITION) \<Rightarrow> missile_op
     \<Rightarrow> MissileEngagementManagerBase \<Rightarrow> MissileEngagementManagerBase" where
  "missile_step to_3d (SetTargetPosition p) m = snd (setTargetPosition to_3d p m)"
| "missile_step to_3d (SetSystemTarget i) m = snd (setSystemTarget i m)"
| "missile_step to_3d (UpdateTargetInfo trk) m = updateTargetInfo to_3d trk m"
| "missile_step to_3d (UpdateWaypoints wps) m = snd (Missile_updateWaypoints to_3d wps m)"
| "missile_step to_3d CalculateEngagementPlan m = snd (Missile_calculateEngagementPlan to_3d m)"
| "missile_step to_3d (Initialize tube kind) m = snd (EngagementManagerBase_initialize tube kind m)"
| "missile_step to_3d Reset m = EngagementManagerBase_reset m"

definition missile_run ::
  "(SGEODETIC_POSITION \<Rightarrow> ST_3D_GEODETIC_POSITION) \<Rightarrow> missile_op list
     \<Rightarrow> MissileEngagementManagerBase \<Rightarrow> MissileEngagementManagerBase" where
  "missile_run to_3d ops m = fold (missile_step to_3d) ops m"

text \<open>
  What the specification says of \<open>has_valid_target\<close>, read on the history of calls: the
  target designation in force is the last one made. It is valid if it is a direct
  position, or if it is a system target id (0 stands for no id) and a track with that id
  has been received since.
\<close>

datatype designation = DirectPosition | SystemTarget nat

fun last_designation :: "missile_op list \<Rightarrow> (designation \<times> missile_op list) option" where
  "last_designation [] = None"
| "last_designation (x # ops) =
     (case last_designation ops of
        Some d \<Rightarrow> Some d
      | None \<Rightarrow>
          (case x of
             SetTargetPosition p \<Rightarrow> Some (DirectPosition, ops)
           | SetSystemTarget i \<Rightarrow> Some (SystemTarget i, ops)
           | _ \<Rightarrow> None))"

definition track_received :: "nat \<Rightarrow> missile_op list \<Rightarrow> bool" where
  "track_received i ops =
     list_ex (\<lambda>x. case x of UpdateTargetInfo trk \<Rightarrow> unTargetSystemID trk = i | _ \<Rightarrow> False) ops"

definition spec_has_valid_target :: "missile_op list \<Rightarrow> bool" where
  "spec_has_valid_target ops =
     (case last_designation ops of
        None \<Rightarrow> False
      | Some (DirectPosition, after) \<Rightarrow> True
      | Some (SystemTarget i, after) \<Rightarrow> i \<noteq> 0 \<and> track_received i after)"

subsection \<open>The mine manager\<close>

definition MineEngagementManager :: MineEngagementManagerBase where
  "MineEngagementManager =
     \<lparr>m_tubeNumber = 0, m_weaponKind = WPN_KIND_M_MINE, m_launched = False,
      m_engagementResult = EngagementPlanResult_default, m_waypoints = [],
      m_launchPosition = zero_position, m_launchTime = 0,
      m_dropPlanListNumber = 0, m_dropPlanNumber = 0, m_dropPlan = empty_plan\<rparr>"

definition waypoint_position :: "ST_WEAPON_WAYPOINT \<Rightarrow> ST_3D_GEODETIC_POSITION" where
  "waypoint_position waypoint =
     \<lparr>ST_3D_GEODETIC_POSITION.dLatitude = ST_WEAPON_WAYPOINT.dLatitude waypoint,
      ST_3D_GEODETIC_POSITION.dLongitude = ST_WEAPON_WAYPOINT.dLongitude waypoint,
      ST_3D_GEODETIC_POSITION.fDepth = ST_WEAPON_WAYPOINT.fDepth waypoint\<rparr>"

definition Mine_calculateTrajectory ::
  "MineEngagementManagerBase \<Rightarrow> unit Result \<times> MineEngagementManagerBase" where
  "Mine_calculateTrajectory m =
     (let r = (m_engagementResult m)
                \<lparr>isValid := True, totalTime_sec := 300,
                 tubeNumber := m_tubeNumber m, weaponKind := m_weaponKind m\<rparr>
      in (success,
          m\<lparr>m_engagementResult :=
              r\<lparr>trajectory := [m_launchPosition m] @ map waypoint_position (m_waypoints m) @
                               [targetPosition r]\<rparr>\<rparr>))"

definition Mine_calculateEngagementPlan ::
  "MineEngagementManagerBase \<Rightarrow> unit Result \<times> MineEngagementManagerBase" where
  "Mine_calculateEngagementPlan m = Mine_calculateTrajectory m"

text \<open>The loop that copies at most 8 waypoints into the plan's array, index by index.\<close>

definition copy_waypoints ::
  "ST_WEAPON_WAYPOINT list \<Rightarrow> ST_WEAPON_WAYPOINT list \<Rightarrow> ST_WEAPON_WAYPOINT list" where
  "copy_waypoints wps arr = fold (\<lambda>i a. a[i := wps ! i]) [0..<min (length wps) 8] arr"

definition updateDropPlanWaypoints ::
  "ST_WEAPON_WAYPOINT list \<Rightarrow> MineEngagementManagerBase
     \<Rightarrow> unit Result \<times> MineEngagementManagerBase" where
  "updateDropPlanWaypoints wps m =
     (if length wps > 8 then (failure ''Too many waypoints for mine (max 8)'', m)
      else Mine_calculateEngagementPlan
             (m\<lparr>m_waypoints := wps,
                m_dropPlan := (m_dropPlan m)\<lparr>usWaypointCnt := length wps,
                                stWaypoint := copy_waypoints wps (stWaypoint (m_dropPlan m))\<rparr>\<rparr>))"

section \<open>The mine drop plan service (MineDropPlanService)\<close>

text \<open>
  The files of the plan lists: which paths exist and what they hold, and which paths the
  process may open for writing and for reading.
\<close>

record filesystem =
  files :: "string \<rightharpoonup> string"
  writable :: "string \<Rightarrow> bool"
  readable :: "string \<Rightarrow> bool"

record MineDropPlanService =
  m_cachedPlans :: "nat \<rightharpoonup> ST_M_MINE_PLAN_INFO list"
  m_planDataPath :: string
  m_maxPlanLists :: nat
  m_maxPlansPerList :: nat
  m_initialized :: bool

definition isValidPlanListNumber :: "MineDropPlanService \<Rightarrow> nat \<Rightarrow> bool" where
  "isValidPlanListNumber svc planListNumber =
     (planListNumber \<ge> 1 \<and> planListNumber \<le> m_maxPlanLists svc)"

definition validatePosition :: "ST_WEAPON_WAYPOINT \<Rightarrow> bool" where
  "validatePosition position =
     (if dLatitude position < -90 \<or> dLatitude position > 90 then False
      else if dLongitude position < -180 \<or> dLongitude position > 180 then False
      else if fDepth position < -1000 \<or> fDepth position > 10000 then False
      else True)"

text \<open>The loop of \<^verbatim>\<open>validatePlan\<close> over \<open>i < usWaypointCnt\<close> and \<open>i < 8\<close>, from \<open>i\<close> on.\<close>

function validate_waypoints_from :: "nat \<Rightarrow> ST_M_MINE_PLAN_INFO \<Rightarrow> bool" where
  "validate_waypoints_from i plan =
     (if i < usWaypointCnt plan \<and> i < 8 then
        (if \<not> validatePosition (stWaypoint plan ! i) then False
         else validate_waypoints_from (Suc i) plan)
      else True)"
  by pat_completeness auto
termination
  by (relation "measure (\<lambda>(i, plan). 8 - i)") auto

declare validate_waypoints_from.simps [simp del]

definition validatePlan :: "ST_M_MINE_PLAN_INFO \<Rightarrow> bool" where
  "validatePlan plan =
     (if usDroppingPlanNumber plan = 0 then False
      else if \<not> validatePosition (stLaunchPos plan) \<or> \<not> validatePosition (stDropPos plan)
        then False
      else validate_waypoints_from 0 plan)"

definition getPlanListFilePath :: "MineDropPlanService \<Rightarrow> nat \<Rightarrow> string" where
  "getPlanListFilePath svc planListNumber =
     m_planDataPath svc @ ''/plan_list_'' @ to_string planListNumber @ ''.json''"

text \<open>
  \<^verbatim>\<open>writeJsonToFile\<close>. How the stream prints a floating-point number is the parameter
  \<open>show_double\<close>. \<open>NL\<close> is the line feed and \<open>QT\<close> the double quote.
\<close>

definition NL :: string where "NL = [CHR 0x0A]"
definition QT :: string where "QT = [CHR 0x22]"

definition plan_json :: "(real \<Rightarrow> string) \<Rightarrow> ST_M_MINE_PLAN_INFO \<Rightarrow> string" where
  "plan_json show_double plan =
     ''    {'' @ NL @
     ''      '' @ QT @ ''planNumber'' @ QT @ '': '' @ to_string (usDroppingPlanNumber plan) @ '','' @ NL @
     ''      '' @ QT @ ''planName'' @ QT @ '': '' @ QT @ ''Plan_'' @
        to_string (usDroppingPlanNumber plan) @ QT @ '','' @ NL @
     ''      '' @ QT @ ''launchLat'' @ QT @ '': '' @ show_double (dLatitude (stLaunchPos plan)) @ '','' @ NL @
     ''      '' @ QT @ ''launchLon'' @ QT @ '': '' @ show_double (dLongitude (stLaunchPos plan)) @ '','' @ NL @
     ''      '' @ QT @ ''dropLat'' @ QT @ '': '' @ show_double (dLatitude (stDropPos plan)) @ '','' @ NL @
     ''      '' @ QT @ ''dropLon'' @ QT @ '': '' @ show_double (dLongitude (stDropPos plan)) @ '','' @ NL @
     ''      '' @ QT @ ''waypointCount'' @ QT @ '': '' @ to_string (usWaypointCnt plan) @ NL @
     ''    }''"

fun plans_json :: "(real \<Rightarrow> string) \<Rightarrow> ST_M_MINE_PLAN_INFO list \<Rightarrow> string" where
  "plans_json show_double [] = []"
| "plans_json show_double [plan] = plan_json show_double plan @ NL"
| "plans_json show_double (plan # plans) =
     plan_json show_double plan @ '','' @ NL @ plans_json show_double plans"

definition writeJsonToFile ::
  "(real \<Rightarrow> string) \<Rightarrow> string \<Rightarrow> nat \<Rightarrow> ST_M_MINE_PLAN_INFO list \<Rightarrow> filesystem
     \<Rightarrow> unit Result \<times> filesystem" where
  "writeJsonToFile show_double filePath planListNumber plans fs =
     (if \<not> writable fs filePath then (failure ''Cannot open file for writing'', fs)
      else (success,
            fs\<lparr>files := (files fs)(filePath \<mapsto>
                 ''{'' @ NL @
                 ''  '' @ QT @ ''planListNumber'' @ QT @ '': '' @ to_string planListNumber @ '','' @ NL @
                 ''  '' @ QT @ ''plans'' @ QT @ '': ['' @ NL @
                 plans_json show_double plans @
                 ''  ]'' @ NL @
                 ''}'' @ NL)\<rparr>))"

text \<open>
  \<^verbatim>\<open>readJsonFromFile\<close>: it checks that the file exists and can be opened, and returns an
  empty vector of plans; it does not read the file.
\<close>

definition readJsonFromFile ::
  "string \<Rightarrow> filesystem \<Rightarrow> ST_M_MINE_PLAN_INFO list Result" where
  "readJsonFromFile filePath fs =
     (if files fs filePath = None then failure ''File not found''
      else if \<not> readable fs filePath then failure ''Cannot open file''
      else Inr [])"

definition savePlanListToFile ::
  "(real \<Rightarrow> string) \<Rightarrow> MineDropPlanService \<Rightarrow> nat \<Rightarrow> ST_M_MINE_PLAN_INFO list \<Rightarrow> filesystem
     \<Rightarrow> unit Result \<times> filesystem" where
  "savePlanListToFile show_double svc planListNumber plans fs =
     writeJsonToFile show_double (getPlanListFilePath svc planListNumber) planListNumber plans fs"

definition loadPlanListFromFile ::
  "MineDropPlanService \<Rightarrow> nat \<Rightarrow> filesystem \<Rightarrow> ST_M_MINE_PLAN_INFO list Result" where
  "loadPlanListFromFile svc planListNumber fs =
     readJsonFromFile (getPlanListFilePath svc planListNumber) fs"

definition loadPlanList ::
  "nat \<Rightarrow> MineDropPlanService \<times> filesystem \<Rightarrow> unit Result \<times> MineDropPlanService \<times> filesystem"
where
  "loadPlanList planListNumber sf =
     (let (svc, fs) = sf
      in if \<not> isValidPlanListNumber svc planListNumber then
           (failure ''Invalid plan list number'', svc, fs)
         else (case loadPlanListFromFile svc planListNumber fs of
                 Inl e \<Rightarrow> (failure (''Failed to load plan list: '' @ message e), svc, fs)
               | Inr plans \<Rightarrow>
                   (success,
                    svc\<lparr>m_cachedPlans := (m_cachedPlans svc)(planListNumber \<mapsto> plans)\<rparr>, fs)))"

definition savePlanList ::
  "(real \<Rightarrow> string) \<Rightarrow> nat \<Rightarrow> ST_M_MINE_PLAN_INFO list \<Rightarrow> MineDropPlanService \<times> filesystem
     \<Rightarrow> unit Result \<times> MineDropPlanService \<times> filesystem" where
  "savePlanList show_double planListNumber plans sf =
     (let (svc, fs) = sf
      in if \<not> isValidPlanListNumber svc planListNumber then
           (failure ''Invalid plan list number'', svc, fs)
         else if length plans > m_maxPlansPerList svc then
           (failure ''Too many plans in list'', svc, fs)
         else if \<not> list_all validatePlan plans then
           (failure ''Invalid plan in list'', svc, fs)
         else (case savePlanListToFile show_double svc planListNumber plans fs of
                 (Inl e, fs1) \<Rightarrow> (Inl e, svc, fs1)
               | (Inr u, fs1) \<Rightarrow>
                   (success,
                    svc\<lparr>m_cachedPlans := (m_cachedPlans svc)(planListNumber \<mapsto> plans)\<rparr>, fs1)))"

definition getPlanList :: "MineDropPlanService \<Rightarrow> nat \<Rightarrow> ST_M_MINE_PLAN_INFO list" where
  "getPlanList svc planListNumber =
     (if \<not> isValidPlanListNumber svc planListNumber then []
      else (case m_cachedPlans svc planListNumber of Some plans \<Rightarrow> plans | None \<Rightarrow> []))"

section \<open>The weapon (Core/Weapons/IWeapon.h, WeaponBase.cpp)\<close>

record LaunchStep =
  description :: string
  duration :: real

record weapon =
  m_weaponKind :: EN_WPN_KIND
  m_tubeNumber :: nat
  m_currentState :: EN_WPN_CTRL_STATE
  m_launched :: bool
  m_fireSolutionReady :: bool
  m_launchSteps :: "LaunchStep list"
  m_onDelay :: real
  m_observers :: "nat list"
  m_currentCancellationToken :: token

text \<open>
  \<^verbatim>\<open>s_defaultTransitionMap\<close>: for each state the set of states that may be requested
  from it. \<^verbatim>\<open>getValidTransitionMap\<close> returns it; no weapon class overrides it.
\<close>

fun s_defaultTransitionMap :: "EN_WPN_CTRL_STATE \<Rightarrow> EN_WPN_CTRL_STATE list option" where
  "s_defaultTransitionMap WPN_CTRL_STATE_OFF = Some [WPN_CTRL_STATE_ON]"
| "s_defaultTransitionMap WPN_CTRL_STATE_ON = Some [WPN_CTRL_STATE_OFF]"
| "s_defaultTransitionMap WPN_CTRL_STATE_RTL = Some [WPN_CTRL_STATE_LAUNCH, WPN_CTRL_STATE_OFF]"
| "s_defaultTransitionMap WPN_CTRL_STATE_LAUNCH = Some [WPN_CTRL_STATE_ABORT]"
| "s_defaultTransitionMap WPN_CTRL_STATE_ABORT = Some [WPN_CTRL_STATE_OFF]"
| "s_defaultTransitionMap WPN_CTRL_STATE_POST_LAUNCH = Some [WPN_CTRL_STATE_OFF]"
| "s_defaultTransitionMap WPN_CTRL_STATE_POC = None"

definition isValidTransition :: "EN_WPN_CTRL_STATE \<Rightarrow> EN_WPN_CTRL_STATE \<Rightarrow> bool" where
  "isValidTransition from to =
     (case s_defaultTransitionMap from of None \<Rightarrow> False | Some tos \<Rightarrow> to \<in> set tos)"

text \<open>
  The constructor. The delay comes from the configuration
  (\<^verbatim>\<open>getDefaultLaunchDelay\<close>, 3.0 unless configured); the token member is a fresh token.
  The weapon classes of the factory set the same delay and three steps of one second
  under other descriptions, and override nothing that is modelled here.
\<close>

definition WeaponBase :: "EN_WPN_KIND \<Rightarrow> real \<Rightarrow> sys \<Rightarrow> weapon \<times> sys" where
  "WeaponBase kind defaultLaunchDelay s =
     (let (t, s1) = new_token s
      in (\<lparr>m_weaponKind = kind, m_tubeNumber = 0,
           m_currentState = WPN_CTRL_STATE_OFF, m_launched = False,
           m_fireSolutionReady = False,
           m_launchSteps =
             [\<lparr>description = ''Power On Check'', duration = 1\<rparr>,
              \<lparr>description = ''System Verification'', duration = 1\<rparr>,
              \<lparr>description = ''Launch Sequence'', duration = 1\<rparr>],
           m_onDelay = defaultLaunchDelay, m_observers = [],
           m_currentCancellationToken = t\<rparr>, s1))"

text \<open>
  \<^verbatim>\<open>notifyStateChanged\<close> and \<^verbatim>\<open>notifyLaunchStatusChanged\<close> call every live observer
  in turn; \<open>m_observers\<close> holds the live ones.
\<close>

definition notifyStateChanged ::
  "EN_WPN_CTRL_STATE \<Rightarrow> EN_WPN_CTRL_STATE \<Rightarrow> weapon \<Rightarrow> sys \<Rightarrow> sys" where
  "notifyStateChanged oldState newState w s =
     s\<lparr>log := log s @ map (\<lambda>ob. OnStateChanged ob (m_tubeNumber w) oldState newState)
                          (m_observers w)\<rparr>"

definition notifyLaunchStatusChanged :: "bool \<Rightarrow> weapon \<Rightarrow> sys \<Rightarrow> sys" where
  "notifyLaunchStatusChanged launched w s =
     s\<lparr>log := log s @ map (\<lambda>ob. OnLaunchStatusChanged ob (m_tubeNumber w) launched)
                          (m_observers w)\<rparr>"

definition setState :: "EN_WPN_CTRL_STATE \<Rightarrow> weapon \<times> sys \<Rightarrow> weapon \<times> sys" where
  "setState newState ws =
     (let (w, s) = ws;
          oldState = m_currentState w;
          w1 = w\<lparr>m_currentState := newState\<rparr>;
          s1 = s\<lparr>log := log s @ [StateSet oldState newState]\<rparr>
      in if oldState \<noteq> newState then (w1, notifyStateChanged oldState newState w1 s1)
         else (w1, s1))"

definition setLaunched :: "bool \<Rightarrow> weapon \<times> sys \<Rightarrow> weapon \<times> sys" where
  "setLaunched launched ws =
     (let (w, s) = ws;
          oldValue = m_launched w;
          w1 = w\<lparr>m_launched := launched\<rparr>
      in if oldValue \<noteq> launched then
           (let s1 = notifyLaunchStatusChanged launched w1 s
            in if launched then setState WPN_CTRL_STATE_POST_LAUNCH (w1, s1) else (w1, s1))
         else (w1, s))"

definition checkInterlockConditions :: "weapon \<Rightarrow> bool" where
  "checkInterlockConditions w = m_fireSolutionReady w"

definition setFireSolutionReady :: "bool \<Rightarrow> weapon \<Rightarrow> weapon" where
  "setFireSolutionReady ready w = w\<lparr>m_fireSolutionReady := ready\<rparr>"

definition addStateObserver :: "nat \<Rightarrow> weapon \<Rightarrow> weapon" where
  "addStateObserver observer w = w\<lparr>m_observers := m_observers w @ [observer]\<rparr>"

definition removeStateObserver :: "nat \<Rightarrow> weapon \<Rightarrow> weapon" where
  "removeStateObserver observer w =
     w\<lparr>m_observers := filter (\<lambda>ob. ob \<noteq> observer) (m_observers w)\<rparr>"

definition reset :: "weapon \<times> sys \<Rightarrow> weapon \<times> sys" where
  "reset ws =
     (let (w, s) = ws;
          s1 = s\<lparr>log := log s @ [StateStored (m_currentState w) WPN_CTRL_STATE_OFF]\<rparr>;
          w1 = w\<lparr>m_currentState := WPN_CTRL_STATE_OFF, m_launched := False,
                 m_fireSolutionReady := False\<rparr>
      in (w1, cancel (m_currentCancellationToken w1) s1))"

definition initialize :: "nat \<Rightarrow> weapon \<times> sys \<Rightarrow> unit Result \<times> weapon \<times> sys" where
  "initialize tube ws =
     (let (w, s) = ws in (success, reset (w\<lparr>m_tubeNumber := tube\<rparr>, s)))"

definition update :: "weapon \<times> sys \<Rightarrow> weapon \<times> sys" where
  "update ws =
     (let (w, s) = ws; currentState = m_currentState w
      in if currentState = WPN_CTRL_STATE_ON then
           (if checkInterlockConditions w then setState WPN_CTRL_STATE_RTL (w, s) else (w, s))
         else if currentState = WPN_CTRL_STATE_RTL then
           (if \<not> checkInterlockConditions w then setState WPN_CTRL_STATE_ON (w, s) else (w, s))
         else (w, s))"

text \<open>
  Single-precision arithmetic. \<^verbatim>\<open>m_onDelay\<close> and the duration of a step are
  \<^verbatim>\<open>float\<close> members: such a member stands for the single-precision number nearest to
  the real number the model holds for it. \<open>to_float\<close> rounds a real number to single
  precision (IEEE 754 binary32: 24 significant bits, exponents from -126 to 127, ties to
  the even significand, subnormal numbers below \<open>2 ^ -126\<close>). \<open>float_exponent\<close> finds
  the binary exponent of a magnitude by searching down from 127. Infinities and NaN are
  not numbers of the model; a result too large for single precision stays a large number
  here, which no \<^verbatim>\<open>int\<close> can hold.
\<close>

definition pow2 :: "int \<Rightarrow> real" where
  "pow2 e = (if 0 \<le> e then 2 ^ nat e else 1 / 2 ^ nat (- e))"

function float_exponent_from :: "int \<Rightarrow> real \<Rightarrow> int" where
  "float_exponent_from e a =
     (if e \<le> -126 then -126
      else if pow2 e \<le> a then e
      else float_exponent_from (e - 1) a)"
  by pat_completeness auto
termination
  by (relation "measure (\<lambda>(e, a). nat (e + 126))") auto

declare float_exponent_from.simps [simp del]

definition float_exponent :: "real \<Rightarrow> int" where
  "float_exponent a = float_exponent_from 127 a"

definition round_half_even :: "real \<Rightarrow> int" where
  "round_half_even q =
     (let f = \<lfloor>q\<rfloor>; r = q - of_int f
      in if r < 1/2 then f else if 1/2 < r then f + 1 else if even f then f else f + 1)"

definition to_float :: "real \<Rightarrow> real" where
  "to_float x =
     (let ulp = pow2 (float_exponent \<bar>x\<bar> - 23)
      in of_int (round_half_even (x / ulp)) * ulp)"

text \<open>
  \<^verbatim>\<open>sleepWithCancellationCheck\<close>. The number of slices is
  \<^verbatim>\<open>static_cast<int>(duration * 1000 / interval_ms)\<close> with \<^verbatim>\<open>interval_ms = 50\<close>. Both
  integers are converted to \<^verbatim>\<open>float\<close>, the product and the quotient are each rounded to
  single precision, and the cast truncates towards zero. The cast is defined only when
  the truncated number is one an \<^verbatim>\<open>int\<close> of 32 bits can hold, which is what \<open>fits_int\<close>
  says. Each round of the loop reads both tokens and then sleeps one slice.
\<close>

definition total_intervals :: "real \<Rightarrow> int" where
  "total_intervals d =
     (let q = to_float (to_float (to_float d * 1000) / 50)
      in if 0 \<le> q then \<lfloor>q\<rfloor> else \<lceil>q\<rceil>)"

definition fits_int :: "real \<Rightarrow> bool" where
  "fits_int d = (- 2147483648 \<le> total_intervals d \<and> total_intervals d \<le> 2147483647)"

fun sleep_loop :: "schedule \<Rightarrow> nat \<Rightarrow> token \<Rightarrow> token \<Rightarrow> sys \<Rightarrow> bool \<times> sys" where
  "sleep_loop ext 0 tok cur s = (True, s)"
| "sleep_loop ext (Suc n) tok cur s =
     (if isCancelled ext tok s \<or> isCancelled ext cur s then (False, s)
      else sleep_loop ext n tok cur (sleep_for s))"

definition sleepWithCancellationCheck ::
  "schedule \<Rightarrow> real \<Rightarrow> token \<Rightarrow> weapon \<Rightarrow> sys \<Rightarrow> bool \<times> sys" where
  "sleepWithCancellationCheck ext d tok w s =
     sleep_loop ext (nat (total_intervals d)) tok (m_currentCancellationToken w) s"

text \<open>\<open>seen\<close>: one of the two tokens read by the sleep has been cancelled by time \<open>c\<close>.\<close>

definition seen :: "schedule \<Rightarrow> token \<Rightarrow> token \<Rightarrow> sys \<Rightarrow> nat \<Rightarrow> bool" where
  "seen ext tok cur s c = (isCancelled ext tok (s\<lparr>clock := c\<rparr>) \<or> isCancelled ext cur (s\<lparr>clock := c\<rparr>))"

text \<open>
  The state hooks \<^verbatim>\<open>onStateEnter\<close>, \<^verbatim>\<open>onStateExit\<close> and \<^verbatim>\<open>onStateUpdate\<close> only print
  in every weapon class, so they do not appear.
\<close>

definition processTurnOn ::
  "schedule \<Rightarrow> token \<Rightarrow> weapon \<times> sys \<Rightarrow> unit Result \<times> weapon \<times> sys" where
  "processTurnOn ext tok ws =
     (let (w1, s1) = setState WPN_CTRL_STATE_POC ws;
          (ok, s2) = sleepWithCancellationCheck ext (m_onDelay w1) tok w1 s1
      in if \<not> ok then
           (failure ''Power-on check cancelled'', setState WPN_CTRL_STATE_OFF (w1, s2))
         else (success, setState WPN_CTRL_STATE_ON (w1, s2)))"

definition processTurnOff :: "weapon \<times> sys \<Rightarrow> unit Result \<times> weapon \<times> sys" where
  "processTurnOff ws =
     (let (w, s) = ws;
          s1 = cancel (m_currentCancellationToken w) s
      in (success, setState WPN_CTRL_STATE_OFF (w, s1)))"

fun launch_loop ::
  "schedule \<Rightarrow> LaunchStep list \<Rightarrow> token \<Rightarrow> weapon \<times> sys \<Rightarrow> unit Result \<times> weapon \<times> sys"
where
  "launch_loop ext [] tok ws = (success, setLaunched True ws)"
| "launch_loop ext (step # steps) tok ws =
     (let (w, s) = ws
      in if isCancelled ext tok s then
           (failure ''Launch sequence aborted'', setState WPN_CTRL_STATE_ABORT (w, s))
         else
           (let (ok, s1) = sleepWithCancellationCheck ext (duration step) tok w s
            in if \<not> ok then
                 (failure ''Launch sequence aborted'', setState WPN_CTRL_STATE_ABORT (w, s1))
               else launch_loop ext steps tok (w, s1)))"

definition processLaunch ::
  "schedule \<Rightarrow> token \<Rightarrow> weapon \<times> sys \<Rightarrow> unit Result \<times> weapon \<times> sys" where
  "processLaunch ext tok ws =
     (let (w1, s1) = setState WPN_CTRL_STATE_LAUNCH ws
      in launch_loop ext (m_launchSteps w1) tok (w1, s1))"

definition processAbort :: "weapon \<times> sys \<Rightarrow> unit Result \<times> weapon \<times> sys" where
  "processAbort ws =
     (let (w, s) = ws;
          s1 = cancel (m_currentCancellationToken w) s
      in (success, setState WPN_CTRL_STATE_ABORT (w, s1)))"

text \<open>
  \<^verbatim>\<open>requestStateChange\<close>. The state mutex it holds is not modelled: every call runs to
  its end before the next one starts. Nothing in the body throws
  \<^verbatim>\<open>OperationCancelledException\<close>, so the handler for it has no branch here.
\<close>

definition requestStateChange ::
  "schedule \<Rightarrow> EN_WPN_CTRL_STATE \<Rightarrow> token \<Rightarrow> weapon \<times> sys \<Rightarrow> unit Result \<times> weapon \<times> sys"
where
  "requestStateChange ext newState tok ws =
     (let (w, s) = ws; currentState = m_currentState w
      in if newState = WPN_CTRL_STATE_ABORT then
           processAbort (w, cancel (m_currentCancellationToken w) s)
         else if \<not> isValidTransition currentState newState then
           (failure (''Invalid transition from '' @ StateToString currentState @
                     '' to '' @ StateToString newState), (w, s))
         else
           (let w1 = w\<lparr>m_currentCancellationToken := tok\<rparr>
            in case newState of
                 WPN_CTRL_STATE_OFF \<Rightarrow> processTurnOff (w1, s)
               | WPN_CTRL_STATE_ON \<Rightarrow> processTurnOn ext tok (w1, s)
               | WPN_CTRL_STATE_LAUNCH \<Rightarrow> processLaunch ext tok (w1, s)
               | _ \<Rightarrow> (success, setState newState (w1, s))))"

section \<open>Launch tubes and their manager (LaunchTube.h, LaunchTubeManager)\<close>

text \<open>
  A launch tube holds a weapon or none. Its engagement manager and assignment record
  play no part in the functions below and are left out. The call that hands a state
  change request to the tube's weapon is logged, with the value of the token's flag.
\<close>

record LaunchTube =
  m_tubeNumber :: nat
  m_weapon :: "weapon option"

definition hasWeapon :: "LaunchTube \<Rightarrow> bool" where
  "hasWeapon tube = (m_weapon tube \<noteq> None)"

definition getWeaponState :: "LaunchTube \<Rightarrow> EN_WPN_CTRL_STATE" where
  "getWeaponState tube =
     (case m_weapon tube of None \<Rightarrow> WPN_CTRL_STATE_OFF | Some w \<Rightarrow> m_currentState w)"

definition requestWeaponStateChange ::
  "schedule \<Rightarrow> EN_WPN_CTRL_STATE \<Rightarrow> token \<Rightarrow> LaunchTube \<times> sys
     \<Rightarrow> unit Result \<times> LaunchTube \<times> sys" where
  "requestWeaponStateChange ext newState tok ts =
     (let (tube, s) = ts
      in case m_weapon tube of
           None \<Rightarrow>
             (failure (''No weapon assigned to tube '' @ to_string (m_tubeNumber tube)), tube, s)
         | Some w \<Rightarrow>
             (let s1 = s\<lparr>log := log s @ [Requested (m_tubeNumber tube) newState tok (flags s tok)]\<rparr>;
                  (r, w1, s2) = requestStateChange ext newState tok (w, s1)
              in (r, tube\<lparr>m_weapon := Some w1\<rparr>, s2)))"

text \<open>
  The manager's vector of tubes: entry 0 is null, entries \<open>m_minTubeNumber\<close> to
  \<open>m_maxTubeNumber\<close> are the tubes. The tubes are shared objects, so
  \<^verbatim>\<open>getAssignedTubes\<close> gives their places in the vector; each of these holds a tube,
  and the branch of \<open>emergencyStop_loop\<close> for an empty place is never taken. The source
  counts the places with a 16-bit counter and reads the vector unchecked: the range below
  is its loop when \<open>m_maxTubeNumber\<close> is less than 65535 and the vector has
  \<open>m_maxTubeNumber + 1\<close> entries, as \<^verbatim>\<open>initialize\<close> leaves it.
\<close>

record LaunchTubeManager =
  m_launchTubes :: "LaunchTube option list"
  m_maxTubes :: nat
  m_minTubeNumber :: nat
  m_maxTubeNumber :: nat

definition getAssignedTubes :: "LaunchTubeManager \<Rightarrow> nat list" where
  "getAssignedTubes mgr =
     filter (\<lambda>i. case m_launchTubes mgr ! i of None \<Rightarrow> False | Some tube \<Rightarrow> hasWeapon tube)
            [m_minTubeNumber mgr ..< Suc (m_maxTubeNumber mgr)]"

fun emergencyStop_loop ::
  "schedule \<Rightarrow> nat list \<Rightarrow> bool \<times> string \<Rightarrow> LaunchTubeManager \<times> sys
     \<Rightarrow> (bool \<times> string) \<times> LaunchTubeManager \<times> sys" where
  "emergencyStop_loop ext [] acc ms = (acc, ms)"
| "emergencyStop_loop ext (i # rest) acc ms =
     (let (allSuccess, errors) = acc; (mgr, s) = ms
      in case m_launchTubes mgr ! i of
           None \<Rightarrow> emergencyStop_loop ext rest acc ms
         | Some tube \<Rightarrow>
             (let currentState = getWeaponState tube;
                  targetState = (if currentState = WPN_CTRL_STATE_LAUNCH
                                 then WPN_CTRL_STATE_ABORT else WPN_CTRL_STATE_OFF);
                  (emergencyToken, s1) = new_token s;
                  s2 = (if targetState = WPN_CTRL_STATE_ABORT
                        then cancel emergencyToken s1 else s1);
                  (result, tube1, s3) =
                     requestWeaponStateChange ext targetState emergencyToken (tube, s2);
                  mgr1 = mgr\<lparr>m_launchTubes := (m_launchTubes mgr)[i := Some tube1]\<rparr>
              in case result of
                   Inl e \<Rightarrow>
                     emergencyStop_loop ext rest
                       (False, errors @ ''Tube '' @ to_string (m_tubeNumber tube1) @ '': '' @
                               message e @ ''; '')
                       (mgr1, s3)
                 | Inr u \<Rightarrow> emergencyStop_loop ext rest (allSuccess, errors) (mgr1, s3)))"

definition emergencyStop ::
  "schedule \<Rightarrow> LaunchTubeManager \<times> sys \<Rightarrow> unit Result \<times> LaunchTubeManager \<times> sys" where
  "emergencyStop ext ms =
     (let assignedTubes = getAssignedTubes (fst ms);
          ((allSuccess, errors), ms1) = emergencyStop_loop ext assignedTubes (True, []) ms
      in if allSuccess then (success, ms1)
         else (failure (''Emergency stop partially failed: '' @ errors), ms1))"

text \<open>
  What an emergency stop is expected to issue. \<open>requests\<close> reads from the log the requests
  handed to tubes: tube number, requested state, and whether the token's flag was set.
  \<open>tubes_at\<close> gives the tubes at some places of the vector, and \<open>emergency_target\<close> the
  state an emergency stop asks of a tube.
\<close>

fun request_of :: "event \<Rightarrow> (nat \<times> EN_WPN_CTRL_STATE \<times> bool) list" where
  "request_of (Requested tube st tok c) = [(tube, st, c)]"
| "request_of _ = []"

definition requests :: "event list \<Rightarrow> (nat \<times> EN_WPN_CTRL_STATE \<times> bool) list" where
  "requests evs = concat (map request_of evs)"

definition emergency_target :: "LaunchTube \<Rightarrow> EN_WPN_CTRL_STATE" where
  "emergency_target tube =
     (if getWeaponState tube = WPN_CTRL_STATE_LAUNCH then WPN_CTRL_STATE_ABORT
      else WPN_CTRL_STATE_OFF)"

definition tubes_at :: "LaunchTubeManager \<Rightarrow> nat list \<Rightarrow> LaunchTube list" where
  "tubes_at mgr places =
     concat (map (\<lambda>i. case m_launchTubes mgr ! i of None \<Rightarrow> [] | Some tube \<Rightarrow> [tube]) places)"

section \<open>Runs of weapon operations\<close>

datatype weapon_op =
    RequestStateChange EN_WPN_CTRL_STATE token
  | Update
  | SetLaunched bool
  | SetFireSolutionReady bool
  | ResetWeapon
  | AddStateObserver nat
  | RemoveStateObserver nat

fun weapon_step :: "schedule \<Rightarrow> weapon_op \<Rightarrow> weapon \<times> sys \<Rightarrow> weapon \<times> sys" where
  "weapon_step ext (RequestStateChange newState tok) ws = snd (requestStateChange ext newState tok ws)"
| "weapon_step ext Update ws = update ws"
| "weapon_step ext (SetLaunched b) ws = setLaunched b ws"
| "weapon_step ext (SetFireSolutionReady b) ws = (setFireSolutionReady b (fst ws), snd ws)"
| "weapon_step ext ResetWeapon ws = reset ws"
| "weapon_step ext (AddStateObserver ob) ws = (addStateObserver ob (fst ws), snd ws)"
| "weapon_step ext (RemoveStateObserver ob) ws = (removeStateObserver ob (fst ws), snd ws)"

definition weapon_run :: "schedule \<Rightarrow> weapon_op list \<Rightarrow> weapon \<times> sys \<Rightarrow> weapon \<times> sys" where
  "weapon_run ext ops ws = fold (weapon_step ext) ops ws"

text \<open>
  The transitions the log may show. \<open>transition_table\<close> is the table as the specification
  lists it; \<open>in_table_or_abort\<close> is the invariant it states. \<open>internal_transition\<close> adds the
  transitions the weapon makes on its own: through POC when it is switched on, between ON
  and RTL on \<^verbatim>\<open>update\<close>, and to POST_LAUNCH when \<^verbatim>\<open>setLaunched(true)\<close> changes the flag.
\<close>

definition transition_table :: "(EN_WPN_CTRL_STATE \<times> EN_WPN_CTRL_STATE) list" where
  "transition_table =
     [(WPN_CTRL_STATE_OFF, WPN_CTRL_STATE_ON),
      (WPN_CTRL_STATE_ON, WPN_CTRL_STATE_OFF),
      (WPN_CTRL_STATE_RTL, WPN_CTRL_STATE_LAUNCH),
      (WPN_CTRL_STATE_RTL, WPN_CTRL_STATE_OFF),
      (WPN_CTRL_STATE_LAUNCH, WPN_CTRL_STATE_ABORT),
      (WPN_CTRL_STATE_ABORT, WPN_CTRL_STATE_OFF),
      (WPN_CTRL_STATE_POST_LAUNCH, WPN_CTRL_STATE_OFF)]"

definition in_table_or_abort :: "EN_WPN_CTRL_STATE \<Rightarrow> EN_WPN_CTRL_STATE \<Rightarrow> bool" where
  "in_table_or_abort from to = ((from, to) \<in> set transition_table \<or> to = WPN_CTRL_STATE_ABORT)"

definition internal_transition :: "EN_WPN_CTRL_STATE \<Rightarrow> EN_WPN_CTRL_STATE \<Rightarrow> bool" where
  "internal_transition from to =
     ((from, to) \<in> set [(WPN_CTRL_STATE_OFF, WPN_CTRL_STATE_POC),
                        (WPN_CTRL_STATE_POC, WPN_CTRL_STATE_ON),
                        (WPN_CTRL_STATE_POC, WPN_CTRL_STATE_OFF),
                        (WPN_CTRL_STATE_ON, WPN_CTRL_STATE_RTL),
                        (WPN_CTRL_STATE_RTL, WPN_CTRL_STATE_ON)]
      \<or> to = WPN_CTRL_STATE_POST_LAUNCH)"

fun claimed_transition :: "event \<Rightarrow> bool" where
  "claimed_transition (StateSet from to) = in_table_or_abort from to"
| "claimed_transition (StateStored from to) = in_table_or_abort from to"
| "claimed_transition _ = True"

fun committed_transition :: "event \<Rightarrow> bool" where
  "committed_transition (StateSet from to) =
     (in_table_or_abort from to \<or> internal_transition from to)"
| "committed_transition (StateStored from to) = (to = WPN_CTRL_STATE_OFF)"
| "committed_transition _ = True"

definition log_ok :: "sys \<Rightarrow> bool" where
  "log_ok s = list_all committed_transition (log s)"

text \<open>
  The instants at which a launch reads the token. \<open>launch_slices\<close> is the number of slices
  a launch sleeps when nothing cancels it. \<open>last_poll\<close> is the number of slices slept before
  the token is read for the last time: every step reads it once before sleeping and then
  before each slice, so only the last slice of the last step is followed by no reading.
\<close>

definition launch_slices :: "LaunchStep list \<Rightarrow> nat" where
  "launch_slices steps = sum_list (map (\<lambda>step. nat (total_intervals (duration step))) steps)"

fun last_poll :: "LaunchStep list \<Rightarrow> nat" where
  "last_poll [] = 0"
| "last_poll [step] = nat (total_intervals (duration step)) - 1"
| "last_poll (step # steps) = nat (total_intervals (duration step)) + last_poll steps"

text \<open>An empty store, and a new weapon in it with a given power-on delay.\<close>

definition initial_sys :: sys where
  "initial_sys = \<lparr>flags = (\<lambda>_. False), fresh = 0, clock = 0, log = []\<rparr>"

definition new_weapon :: "real \<Rightarrow> weapon" where
  "new_weapon delay = fst (WeaponBase WPN_KIND_ALM delay initial_sys)"

definition new_weapon_sys :: sys where
  "new_weapon_sys = snd (WeaponBase WPN_KIND_ALM 3 initial_sys)"

text \<open>A manager of two tubes: the weapon of tube 1 is launching, that of tube 2 is ready.\<close>

definition two_tubes :: LaunchTubeManager where
  "two_tubes =
     \<lparr>m_launchTubes =
        [None,
         Some \<lparr>m_tubeNumber = 1,
               m_weapon = Some ((new_weapon 3)\<lparr>weapon.m_tubeNumber := 1,
                                   m_currentState := WPN_CTRL_STATE_LAUNCH\<rparr>)\<rparr>,
         Some \<lparr>m_tubeNumber = 2,
               m_weapon = Some ((new_weapon 3)\<lparr>weapon.m_tubeNumber := 2,
                                   m_currentState := WPN_CTRL_STATE_RTL\<rparr>)\<rparr>],
      m_maxTubes = 2, m_minTubeNumber = 1, m_maxTubeNumber = 2\<rparr>"

section \<open>What the specification says of plans, and example data\<close>

text \<open>
  The position ranges and the validity of a plan in the words of the specification; a
  plan that claims 9 waypoints; a plan service on an empty directory and a plan for it.
\<close>

definition position_in_range :: "ST_WEAPON_WAYPOINT \<Rightarrow> bool" where
  "position_in_range p =
     (-90 \<le> dLatitude p \<and> dLatitude p \<le> 90 \<and>
      -180 \<le> dLongitude p \<and> dLongitude p \<le> 180 \<and>
      -1000 \<le> fDepth p \<and> fDepth p \<le> 10000)"

definition spec_valid_plan :: "ST_M_MINE_PLAN_INFO \<Rightarrow> bool" where
  "spec_valid_plan plan =
     (usDroppingPlanNumber plan \<noteq> 0 \<and>
      position_in_range (stLaunchPos plan) \<and> position_in_range (stDropPos plan) \<and>
      list_all position_in_range (take (usWaypointCnt plan) (stWaypoint plan)) \<and>
      usWaypointCnt plan \<le> 8)"

definition nine_waypoints_plan :: ST_M_MINE_PLAN_INFO where
  "nine_waypoints_plan = empty_plan\<lparr>usDroppingPlanNumber := 7, usWaypointCnt := 9\<rparr>"

definition example_service :: MineDropPlanService where
  "example_service =
     \<lparr>m_cachedPlans = Map.empty, m_planDataPath = ''data/mine_plans'',
      m_maxPlanLists = 15, m_maxPlansPerList = 15, m_initialized = True\<rparr>"

definition empty_filesystem :: filesystem where
  "empty_filesystem = \<lparr>files = Map.empty, writable = (\<lambda>_. True), readable = (\<lambda>_. True)\<rparr>"

definition example_plan :: ST_M_MINE_PLAN_INFO where
  "example_plan =
     \<lparr>sListID = 3, usDroppingPlanNumber = 7,
      stLaunchPos = \<lparr>dLatitude = 35, dLongitude = 129, fDepth = 0\<rparr>,
      stDropPos = \<lparr>dLatitude = 351 / 10, dLongitude = 1291 / 10, fDepth = 0\<rparr>,
      usWaypointCnt = 1,
      stWaypoint = \<lparr>dLatitude = 3505 / 100, dLongitude = 12905 / 100, fDepth = 0\<rparr> #
                   replicate 7 zero_waypoint\<rparr>"

definition designated_id :: "missile_op list \<Rightarrow> nat" where
  "designated_id ops =
     (case last_designation ops of Some (SystemTarget i, after) \<Rightarrow> i | _ \<Rightarrow> 0)"

section \<open>Properties of the weapon\<close>

lemma isValidTransition_internal_targets:
  "\<not> isValidTransition from WPN_CTRL_STATE_RTL"
  "\<not> isValidTransition from WPN_CTRL_STATE_POC"
  "\<not> isValidTransition from WPN_CTRL_STATE_POST_LAUNCH"
  by (cases "from"; simp add: isValidTransition_def)+

subsection \<open>Reading the tokens while sleeping\<close>

lemma isCancelled_at:
  "isCancelled ext t (s\<lparr>clock := c\<rparr>) = (flags s t \<or> (\<exists>k. ext t = Some k \<and> k < c))"
  by (auto simp: isCancelled_def split: option.splits)

lemma isCancelled_mono:
  "isCancelled ext t (s\<lparr>clock := c\<rparr>) \<Longrightarrow> c \<le> c' \<Longrightarrow> isCancelled ext t (s\<lparr>clock := c'\<rparr>)"
  by (auto simp: isCancelled_at)

lemma seen_mono: "seen ext tok cur s c \<Longrightarrow> c \<le> c' \<Longrightarrow> seen ext tok cur s c'"
  unfolding seen_def using isCancelled_mono by blast

lemma seen_upd [simp]: "seen ext tok cur (s\<lparr>clock := d\<rparr>) c = seen ext tok cur s c"
  by (simp add: seen_def)

lemma sleep_loop_result:
  "\<exists>c. sleep_loop ext n tok cur s =
          (\<not> (0 < n \<and> seen ext tok cur s (clock s + n - 1)), s\<lparr>clock := c\<rparr>) \<and>
       clock s \<le> c \<and> c \<le> clock s + n \<and>
       (\<not> (0 < n \<and> seen ext tok cur s (clock s + n - 1)) \<longrightarrow> c = clock s + n)"
proof (induction n arbitrary: s)
  case 0
  show ?case by (rule exI [of _ "clock s"]) simp
next
  case (Suc n)
  show ?case
  proof (cases "isCancelled ext tok s \<or> isCancelled ext cur s")
    case True
    then have "seen ext tok cur s (clock s)" by (simp add: seen_def)
    then have "seen ext tok cur s (clock s + Suc n - 1)"
      by (rule seen_mono) simp
    with True show ?thesis
      by (intro exI [of _ "clock s"]) simp
  next
    case False
    then have ns: "\<not> seen ext tok cur s (clock s)" by (simp add: seen_def)
    from Suc.IH [of "sleep_for s"] obtain c where
      c: "sleep_loop ext n tok cur (sleep_for s) =
            (\<not> (0 < n \<and> seen ext tok cur s (Suc (clock s) + n - 1)), s\<lparr>clock := c\<rparr>)"
         "Suc (clock s) \<le> c" "c \<le> Suc (clock s) + n"
         "\<not> (0 < n \<and> seen ext tok cur s (Suc (clock s) + n - 1)) \<longrightarrow> c = Suc (clock s) + n"
      by (auto simp: sleep_for_def)
    show ?thesis
    proof (cases "n = 0")
      case True
      with False ns c show ?thesis by (intro exI [of _ c]) auto
    next
      case n: False
      then have "Suc (clock s) + n - 1 = clock s + Suc n - 1" by simp
      with False c n show ?thesis by (intro exI [of _ c]) auto
    qed
  qed
qed


lemma seen_same [simp]: "seen ext tok tok s c = isCancelled ext tok (s\<lparr>clock := c\<rparr>)"
  by (simp add: seen_def)

lemma isCancelled_log [simp]:
  "isCancelled ext t (s\<lparr>log := l\<rparr>) = isCancelled ext t s"
  by (simp add: isCancelled_def split: option.splits)

lemma isCancelled_log_clock [simp]:
  "isCancelled ext t (s\<lparr>log := l, clock := c\<rparr>) = isCancelled ext t (s\<lparr>clock := c\<rparr>)"
  by (simp add: isCancelled_def split: option.splits)

lemma last_poll_Cons:
  "steps \<noteq> [] \<Longrightarrow> last_poll (step # steps) = nat (total_intervals (duration step)) + last_poll steps"
  by (cases steps) simp_all

lemma last_poll_ge: "nat (total_intervals (duration step)) - 1 \<le> last_poll (step # steps)"
  by (cases steps) simp_all

lemma launch_loop_result:
  assumes tok: "m_currentCancellationToken w = tok"
  shows "(steps \<noteq> [] \<and> isCancelled ext tok (s\<lparr>clock := clock s + last_poll steps\<rparr>) \<longrightarrow>
            (\<exists>c. launch_loop ext steps tok (w, s) =
                     (failure ''Launch sequence aborted'',
                      setState WPN_CTRL_STATE_ABORT (w, s\<lparr>clock := c\<rparr>)))) \<and>
         (\<not> (steps \<noteq> [] \<and> isCancelled ext tok (s\<lparr>clock := clock s + last_poll steps\<rparr>)) \<longrightarrow>
            launch_loop ext steps tok (w, s) =
              (success, setLaunched True (w, s\<lparr>clock := clock s + launch_slices steps\<rparr>)))"
proof (induction steps arbitrary: s)
  case Nil
  show ?case by (simp add: launch_slices_def)
next
  case (Cons step steps)
  define n where "n = nat (total_intervals (duration step))"
  show ?case
  proof (cases "isCancelled ext tok s")
    case True
    then have "isCancelled ext tok (s\<lparr>clock := clock s\<rparr>)" by simp
    then have "isCancelled ext tok (s\<lparr>clock := clock s + last_poll (step # steps)\<rparr>)"
      by (rule isCancelled_mono) simp
    moreover have "launch_loop ext (step # steps) tok (w, s) =
                     (failure ''Launch sequence aborted'',
                      setState WPN_CTRL_STATE_ABORT (w, s\<lparr>clock := clock s\<rparr>))"
      using True by simp
    ultimately show ?thesis by blast
  next
    case now: False
    obtain c where c:
      "sleep_loop ext n tok tok s =
         (\<not> (0 < n \<and> seen ext tok tok s (clock s + n - 1)), s\<lparr>clock := c\<rparr>)"
      "\<not> (0 < n \<and> seen ext tok tok s (clock s + n - 1)) \<longrightarrow> c = clock s + n"
      using sleep_loop_result [of ext n tok tok s] by blast
    show ?thesis
    proof (cases "0 < n \<and> isCancelled ext tok (s\<lparr>clock := clock s + n - 1\<rparr>)")
      case True
      then have "isCancelled ext tok (s\<lparr>clock := clock s + (n - 1)\<rparr>)" by simp
      then have "isCancelled ext tok (s\<lparr>clock := clock s + last_poll (step # steps)\<rparr>)"
        by (rule isCancelled_mono) (use last_poll_ge [of step steps] in \<open>simp add: n_def\<close>)
      moreover have "launch_loop ext (step # steps) tok (w, s) =
                     (failure ''Launch sequence aborted'',
                      setState WPN_CTRL_STATE_ABORT (w, s\<lparr>clock := c\<rparr>))"
        using True now c tok by (simp add: sleepWithCancellationCheck_def n_def [symmetric])
      ultimately show ?thesis by blast
    next
      case slept: False
      with c have c_eq: "c = clock s + n" by auto
      have step: "launch_loop ext (step # steps) tok (w, s) =
                  launch_loop ext steps tok (w, s\<lparr>clock := clock s + n\<rparr>)"
        using now slept c tok c_eq
        by (simp add: sleepWithCancellationCheck_def n_def [symmetric])
      have slices: "launch_slices (step # steps) = n + launch_slices steps"
        by (simp add: launch_slices_def n_def)
      note ih = Cons.IH [of "s\<lparr>clock := clock s + n\<rparr>", simplified]
      show ?thesis
      proof (cases "steps = []")
        case True
        have "\<not> isCancelled ext tok (s\<lparr>clock := clock s + (n - 1)\<rparr>)"
        proof (cases "n = 0")
          case True
          with now show ?thesis by simp
        next
          case False
          with slept show ?thesis by simp
        qed
        with True step show ?thesis
          by (simp add: n_def [symmetric] launch_slices_def)
      next
        case False
        then have lp: "last_poll (step # steps) = n + last_poll steps"
          by (simp add: last_poll_Cons n_def)
        show ?thesis
          unfolding step lp slices using ih False by (simp add: add.assoc)
      qed
    qed
  qed
qed


text \<open>
  Slice counts of some delays. A delay of 0.35 is held as the single-precision number
  just below it; its product with 1000 rounds to 350, so the sleep has 7 slices, where
  exact arithmetic on the number held would give 6.
\<close>

lemma total_intervals_values:
  "total_intervals 3 = 60" "total_intervals 1 = 20"
  "total_intervals (1/10) = 2" "total_intervals (1/20) = 1"
  "total_intervals (35/100) = 7" "total_intervals (7/20) = 7"
  "total_intervals (11744051 / 33554432) = 7"
  by (simp_all add: total_intervals_def to_float_def float_exponent_def pow2_def
        round_half_even_def float_exponent_from.simps)

lemma new_weapon_simps:
  "new_weapon d = \<lparr>m_weaponKind = WPN_KIND_ALM, m_tubeNumber = 0,
           m_currentState = WPN_CTRL_STATE_OFF, m_launched = False,
           m_fireSolutionReady = False,
           m_launchSteps =
             [\<lparr>description = ''Power On Check'', duration = 1\<rparr>,
              \<lparr>description = ''System Verification'', duration = 1\<rparr>,
              \<lparr>description = ''Launch Sequence'', duration = 1\<rparr>],
           m_onDelay = d, m_observers = [],
           m_currentCancellationToken = 0\<rparr>"
  "new_weapon_sys = \<lparr>flags = (\<lambda>_. False), fresh = 1, clock = 0, log = []\<rparr>"
  by (simp_all add: new_weapon_def new_weapon_sys_def WeaponBase_def new_token_def initial_sys_def fun_eq_iff)

subsection \<open>Requests\<close>

text \<open>
  C10. Whatever the current control state, a request for RTL, POC or POST_LAUNCH fails
  with the invalid-transition message and changes nothing: the weapon (so its control
  state) and the store are returned as they were.
\<close>

theorem request_internal_state_rejected:
  "newState \<in> {WPN_CTRL_STATE_RTL, WPN_CTRL_STATE_POC, WPN_CTRL_STATE_POST_LAUNCH} \<Longrightarrow>
   requestStateChange ext newState tok (w, s) =
     (failure (''Invalid transition from '' @ StateToString (m_currentState w) @
               '' to '' @ StateToString newState), (w, s))"
  by (auto simp: requestStateChange_def isValidTransition_internal_targets)

theorem request_internal_state_rejected_witness:
  "WPN_CTRL_STATE_RTL \<in> {WPN_CTRL_STATE_RTL, WPN_CTRL_STATE_POC, WPN_CTRL_STATE_POST_LAUNCH} \<and>
   requestStateChange (\<lambda>_. None) WPN_CTRL_STATE_RTL 5 (WeaponBase WPN_KIND_ALM 3 initial_sys) =
     (failure ''Invalid transition from OFF to RTL'', WeaponBase WPN_KIND_ALM 3 initial_sys)"
  using request_internal_state_rejected
          [of WPN_CTRL_STATE_RTL "\<lambda>_. None" 5 "fst (WeaponBase WPN_KIND_ALM 3 initial_sys)"
              "snd (WeaponBase WPN_KIND_ALM 3 initial_sys)"]
  by (simp add: WeaponBase_def new_token_def initial_sys_def)

text \<open>
  C1. From every control state, a request for ABORT succeeds. It cancels the weapon's
  current token (the flag is set, and the cancellation is the first effect logged), then
  exchanges the control state for ABORT and tells the observers if the state changed.
  The transition table is not consulted.
\<close>

theorem abort_accepted_from_any_state:
  "requestStateChange ext WPN_CTRL_STATE_ABORT tok (w, s) =
     (success, w\<lparr>m_currentState := WPN_CTRL_STATE_ABORT\<rparr>,
      s\<lparr>flags := (flags s)(m_currentCancellationToken w := True),
        log := log s @
          [TokenCancelled (m_currentCancellationToken w),
           TokenCancelled (m_currentCancellationToken w),
           StateSet (m_currentState w) WPN_CTRL_STATE_ABORT] @
          (if m_currentState w \<noteq> WPN_CTRL_STATE_ABORT
           then map (\<lambda>ob. OnStateChanged ob (weapon.m_tubeNumber w) (m_currentState w)
                            WPN_CTRL_STATE_ABORT) (m_observers w)
           else [])\<rparr>)"
  by (simp add: requestStateChange_def processAbort_def cancel_def setState_def
        notifyStateChanged_def Let_def)

theorem abort_accepted_from_any_state_witness:
  "\<not> isValidTransition WPN_CTRL_STATE_ON WPN_CTRL_STATE_ABORT \<and>
   (let w = (fst (WeaponBase WPN_KIND_ALM 3 initial_sys))
              \<lparr>m_currentState := WPN_CTRL_STATE_ON, m_observers := [1]\<rparr>;
        s = snd (WeaponBase WPN_KIND_ALM 3 initial_sys);
        (r, w', s') = requestStateChange (\<lambda>_. None) WPN_CTRL_STATE_ABORT 5 (w, s)
    in r = success \<and> m_currentState w' = WPN_CTRL_STATE_ABORT \<and> flags s' 0 \<and>
       log s' = [TokenCancelled 0, TokenCancelled 0,
                 StateSet WPN_CTRL_STATE_ON WPN_CTRL_STATE_ABORT,
                 OnStateChanged 1 0 WPN_CTRL_STATE_ON WPN_CTRL_STATE_ABORT])"
  using abort_accepted_from_any_state
          [of "\<lambda>_. None" 5
              "(fst (WeaponBase WPN_KIND_ALM 3 initial_sys))
                 \<lparr>m_currentState := WPN_CTRL_STATE_ON, m_observers := [1]\<rparr>"
              "snd (WeaponBase WPN_KIND_ALM 3 initial_sys)"]
  by (simp add: WeaponBase_def new_token_def initial_sys_def isValidTransition_def)

text \<open>
  C4 (as amended). Let the delay be one whose slice count, computed in single precision
  as the source does, is a number an \<^verbatim>\<open>int\<close> can hold. A request for ON on a weapon in
  OFF first sets POC and then sleeps in slices, reading the token before each one. If the
  token reads as cancelled at the last of these readings (so: it was cancelled before the
  request, or another thread cancelled it before the last slice began), the request fails
  with the message \<open>Power-on check cancelled\<close> and the state is OFF again. Otherwise,
  also when the delay is shorter than one slice or the token is cancelled only during the
  last slice, the whole delay is slept, the request succeeds and the state is ON.
\<close>

theorem turn_on_from_off:
  assumes off: "m_currentState w = WPN_CTRL_STATE_OFF"
    and fits: "fits_int (m_onDelay w)"
    and run: "requestStateChange ext WPN_CTRL_STATE_ON tok (w, s) = (r, w', s')"
  shows "if 0 < nat (total_intervals (m_onDelay w)) \<and>
            isCancelled ext tok (s\<lparr>clock := clock s + nat (total_intervals (m_onDelay w)) - 1\<rparr>)
         then r = failure ''Power-on check cancelled'' \<and>
              m_currentState w' = WPN_CTRL_STATE_OFF \<and>
              log s' = log s @
                [StateSet WPN_CTRL_STATE_OFF WPN_CTRL_STATE_POC] @
                map (\<lambda>ob. OnStateChanged ob (weapon.m_tubeNumber w) WPN_CTRL_STATE_OFF WPN_CTRL_STATE_POC)
                    (m_observers w) @
                [StateSet WPN_CTRL_STATE_POC WPN_CTRL_STATE_OFF] @
                map (\<lambda>ob. OnStateChanged ob (weapon.m_tubeNumber w) WPN_CTRL_STATE_POC WPN_CTRL_STATE_OFF)
                    (m_observers w)
         else r = success \<and>
              m_currentState w' = WPN_CTRL_STATE_ON \<and>
              clock s' = clock s + nat (total_intervals (m_onDelay w)) \<and>
              log s' = log s @
                [StateSet WPN_CTRL_STATE_OFF WPN_CTRL_STATE_POC] @
                map (\<lambda>ob. OnStateChanged ob (weapon.m_tubeNumber w) WPN_CTRL_STATE_OFF WPN_CTRL_STATE_POC)
                    (m_observers w) @
                [StateSet WPN_CTRL_STATE_POC WPN_CTRL_STATE_ON] @
                map (\<lambda>ob. OnStateChanged ob (weapon.m_tubeNumber w) WPN_CTRL_STATE_POC WPN_CTRL_STATE_ON)
                    (m_observers w)"
proof -
  define n where "n = nat (total_intervals (m_onDelay w))"
  define s1 where "s1 = s\<lparr>log := log s @
                [StateSet WPN_CTRL_STATE_OFF WPN_CTRL_STATE_POC] @
                map (\<lambda>ob. OnStateChanged ob (weapon.m_tubeNumber w) WPN_CTRL_STATE_OFF WPN_CTRL_STATE_POC)
                    (m_observers w)\<rparr>"
  obtain c where c:
    "sleep_loop ext n tok tok s1 =
       (\<not> (0 < n \<and> seen ext tok tok s1 (clock s1 + n - 1)), s1\<lparr>clock := c\<rparr>)"
    "\<not> (0 < n \<and> seen ext tok tok s1 (clock s1 + n - 1)) \<longrightarrow> c = clock s1 + n"
    using sleep_loop_result [of ext n tok tok s1] by blast
  have seen: "seen ext tok tok s1 (clock s1 + n - 1) =
              isCancelled ext tok (s\<lparr>clock := clock s + n - 1\<rparr>)"
    by (simp add: s1_def)
  from run off c show ?thesis
    unfolding n_def [symmetric] seen
    by (auto simp: requestStateChange_def isValidTransition_def processTurnOn_def
          setState_def notifyStateChanged_def sleepWithCancellationCheck_def
          n_def [symmetric] s1_def [symmetric] Let_def s1_def split: if_splits)
qed


text \<open>
  Two runs: a delay of 0.1 (2 slices) with no cancellation, and a delay of 0.35 (7 slices)
  with a token that another thread cancels during slice 5, which is read before slice 6.
\<close>

theorem turn_on_from_off_witness:
  "m_currentState (new_weapon (1/10)) = WPN_CTRL_STATE_OFF \<and>
   fits_int (m_onDelay (new_weapon (1/10))) \<and>
   nat (total_intervals (m_onDelay (new_weapon (1/10)))) = 2 \<and>
   (let (r, w', s') = requestStateChange (\<lambda>_. None) WPN_CTRL_STATE_ON 5 (new_weapon (1/10), new_weapon_sys)
    in r = success \<and> m_currentState w' = WPN_CTRL_STATE_ON \<and> clock s' = 2) \<and>
   m_currentState (new_weapon (35/100)) = WPN_CTRL_STATE_OFF \<and>
   fits_int (m_onDelay (new_weapon (35/100))) \<and>
   nat (total_intervals (m_onDelay (new_weapon (35/100)))) = 7 \<and>
   (let (r, w', s') = requestStateChange [7 \<mapsto> 5] WPN_CTRL_STATE_ON 7 (new_weapon (35/100), new_weapon_sys)
    in r = failure ''Power-on check cancelled'' \<and> m_currentState w' = WPN_CTRL_STATE_OFF)"
proof -
  have off: "m_currentState (new_weapon (1/10)) = WPN_CTRL_STATE_OFF"
            "m_currentState (new_weapon (35/100)) = WPN_CTRL_STATE_OFF"
    by (simp_all add: new_weapon_simps)
  have fits: "fits_int (m_onDelay (new_weapon (1/10)))" "fits_int (m_onDelay (new_weapon (35/100)))"
    by (simp_all add: fits_int_def new_weapon_simps total_intervals_values)
  have n: "nat (total_intervals (m_onDelay (new_weapon (1/10)))) = 2"
          "nat (total_intervals (m_onDelay (new_weapon (35/100)))) = 7"
    by (simp_all add: new_weapon_simps total_intervals_values)
  have r1: "requestStateChange (\<lambda>_. None) WPN_CTRL_STATE_ON 5 (new_weapon (1/10), new_weapon_sys) =
              (fst (requestStateChange (\<lambda>_. None) WPN_CTRL_STATE_ON 5 (new_weapon (1/10), new_weapon_sys)),
               fst (snd (requestStateChange (\<lambda>_. None) WPN_CTRL_STATE_ON 5 (new_weapon (1/10), new_weapon_sys))),
               snd (snd (requestStateChange (\<lambda>_. None) WPN_CTRL_STATE_ON 5 (new_weapon (1/10), new_weapon_sys))))"
    by simp
  have r2: "requestStateChange [7 \<mapsto> 5] WPN_CTRL_STATE_ON 7 (new_weapon (35/100), new_weapon_sys) =
              (fst (requestStateChange [7 \<mapsto> 5] WPN_CTRL_STATE_ON 7 (new_weapon (35/100), new_weapon_sys)),
               fst (snd (requestStateChange [7 \<mapsto> 5] WPN_CTRL_STATE_ON 7 (new_weapon (35/100), new_weapon_sys))),
               snd (snd (requestStateChange [7 \<mapsto> 5] WPN_CTRL_STATE_ON 7 (new_weapon (35/100), new_weapon_sys))))"
    by simp
  have c1: "\<not> isCancelled (\<lambda>_. None) 5 (new_weapon_sys\<lparr>clock := clock new_weapon_sys + 2 - 1\<rparr>)"
    by (simp add: isCancelled_def new_weapon_simps)
  have c2: "isCancelled [7 \<mapsto> 5] 7 (new_weapon_sys\<lparr>clock := clock new_weapon_sys + 7 - 1\<rparr>)"
    by (simp add: isCancelled_def new_weapon_simps)
  show ?thesis
    using off fits n
      turn_on_from_off [OF off(1) fits(1) r1, unfolded n] c1
      turn_on_from_off [OF off(2) fits(2) r2, unfolded n] c2
    by (simp add: split_beta new_weapon_simps)
qed

text \<open>
  The claim as stated fails: with a delay of one slice, a token that another thread
  cancels during that slice has fired during the wait, and is set when the request
  returns, yet the request succeeds and the weapon is ON.
\<close>

theorem turn_on_fired_in_last_slice:
  "m_currentState (new_weapon (1/20)) = WPN_CTRL_STATE_OFF \<and>
   \<not> isCancelled [7 \<mapsto> 0] 7 new_weapon_sys \<and>
   isCancelled [7 \<mapsto> 0] 7
     (snd (snd (requestStateChange [7 \<mapsto> 0] WPN_CTRL_STATE_ON 7 (new_weapon (1/20), new_weapon_sys)))) \<and>
   fst (requestStateChange [7 \<mapsto> 0] WPN_CTRL_STATE_ON 7 (new_weapon (1/20), new_weapon_sys)) = success \<and>
   m_currentState
     (fst (snd (requestStateChange [7 \<mapsto> 0] WPN_CTRL_STATE_ON 7 (new_weapon (1/20), new_weapon_sys))))
     = WPN_CTRL_STATE_ON"
  by (simp add: new_weapon_simps total_intervals_values isCancelled_def requestStateChange_def
        isValidTransition_def processTurnOn_def setState_def notifyStateChanged_def
        sleepWithCancellationCheck_def sleep_for_def Let_def)

text \<open>
  C3 (as amended). A request for LAUNCH on a weapon in RTL sets LAUNCH and runs the steps
  in order. If the token reads as cancelled at the last reading of the run (there is one
  before every step and before every slice), the request fails with the message
  \<open>Launch sequence aborted\<close>, the state is ABORT and the launched flag is what it was.
  Otherwise all steps are slept through, the request succeeds and the flag is set; if the
  flag was not set before, the observers are told of the launch and the state is
  POST_LAUNCH. Nothing is said here of the state after a launch that finds the flag
  already set.
\<close>

theorem launch_from_rtl:
  assumes rtl: "m_currentState w = WPN_CTRL_STATE_RTL"
    and run: "requestStateChange ext WPN_CTRL_STATE_LAUNCH tok (w, s) = (r, w', s')"
  shows "if m_launchSteps w \<noteq> [] \<and>
            isCancelled ext tok (s\<lparr>clock := clock s + last_poll (m_launchSteps w)\<rparr>)
         then r = failure ''Launch sequence aborted'' \<and>
              m_currentState w' = WPN_CTRL_STATE_ABORT \<and>
              weapon.m_launched w' = weapon.m_launched w \<and>
              log s' = log s @
                [StateSet WPN_CTRL_STATE_RTL WPN_CTRL_STATE_LAUNCH] @
                map (\<lambda>ob. OnStateChanged ob (weapon.m_tubeNumber w) WPN_CTRL_STATE_RTL WPN_CTRL_STATE_LAUNCH)
                    (m_observers w) @
                [StateSet WPN_CTRL_STATE_LAUNCH WPN_CTRL_STATE_ABORT] @
                map (\<lambda>ob. OnStateChanged ob (weapon.m_tubeNumber w) WPN_CTRL_STATE_LAUNCH WPN_CTRL_STATE_ABORT)
                    (m_observers w)
         else r = success \<and>
              weapon.m_launched w' \<and>
              clock s' = clock s + launch_slices (m_launchSteps w) \<and>
              (\<not> weapon.m_launched w \<longrightarrow>
                 m_currentState w' = WPN_CTRL_STATE_POST_LAUNCH \<and>
                 log s' = log s @
                   [StateSet WPN_CTRL_STATE_RTL WPN_CTRL_STATE_LAUNCH] @
                   map (\<lambda>ob. OnStateChanged ob (weapon.m_tubeNumber w) WPN_CTRL_STATE_RTL WPN_CTRL_STATE_LAUNCH)
                       (m_observers w) @
                   map (\<lambda>ob. OnLaunchStatusChanged ob (weapon.m_tubeNumber w) True) (m_observers w) @
                   [StateSet WPN_CTRL_STATE_LAUNCH WPN_CTRL_STATE_POST_LAUNCH] @
                   map (\<lambda>ob. OnStateChanged ob (weapon.m_tubeNumber w) WPN_CTRL_STATE_LAUNCH
                                   WPN_CTRL_STATE_POST_LAUNCH) (m_observers w))"
proof -
  define w1 where "w1 = w\<lparr>m_currentCancellationToken := tok, m_currentState := WPN_CTRL_STATE_LAUNCH\<rparr>"
  define s1 where "s1 = s\<lparr>log := log s @
                [StateSet WPN_CTRL_STATE_RTL WPN_CTRL_STATE_LAUNCH] @
                map (\<lambda>ob. OnStateChanged ob (weapon.m_tubeNumber w) WPN_CTRL_STATE_RTL WPN_CTRL_STATE_LAUNCH)
                    (m_observers w)\<rparr>"
  have req: "requestStateChange ext WPN_CTRL_STATE_LAUNCH tok (w, s) =
             launch_loop ext (m_launchSteps w) tok (w1, s1)"
    using rtl
    by (simp add: requestStateChange_def isValidTransition_def processLaunch_def setState_def
          notifyStateChanged_def Let_def w1_def s1_def)
  have tok: "m_currentCancellationToken w1 = tok" by (simp add: w1_def)
  have cond: "isCancelled ext tok (s1\<lparr>clock := clock s1 + last_poll (m_launchSteps w)\<rparr>) =
              isCancelled ext tok (s\<lparr>clock := clock s + last_poll (m_launchSteps w)\<rparr>)"
    by (simp add: s1_def)
  note ll = launch_loop_result [OF tok, of "m_launchSteps w" ext s1, unfolded cond]
  show ?thesis
  proof (cases "m_launchSteps w \<noteq> [] \<and>
            isCancelled ext tok (s\<lparr>clock := clock s + last_poll (m_launchSteps w)\<rparr>)")
    case True
    with ll obtain c where
      "launch_loop ext (m_launchSteps w) tok (w1, s1) =
         (failure ''Launch sequence aborted'', setState WPN_CTRL_STATE_ABORT (w1, s1\<lparr>clock := c\<rparr>))"
      by blast
    with run req True show ?thesis
      by (auto simp: setState_def notifyStateChanged_def Let_def w1_def s1_def)
  next
    case False
    with ll have
      "launch_loop ext (m_launchSteps w) tok (w1, s1) =
         (success, setLaunched True (w1, s1\<lparr>clock := clock s1 + launch_slices (m_launchSteps w)\<rparr>))"
      by blast
    with run req have res:
      "(r, w', s') =
         (success, setLaunched True (w1, s1\<lparr>clock := clock s1 + launch_slices (m_launchSteps w)\<rparr>))"
      by simp
    show ?thesis
    proof (cases "weapon.m_launched w")
      case True
      with res False show ?thesis
        by (simp add: setLaunched_def w1_def s1_def)
    next
      case nl: False
      with res False show ?thesis
        by (simp add: setLaunched_def setState_def notifyStateChanged_def
              notifyLaunchStatusChanged_def w1_def s1_def)
    qed
  qed
qed


theorem launch_from_rtl_witness:
  "m_currentState ((new_weapon 3)\<lparr>m_currentState := WPN_CTRL_STATE_RTL, m_observers := [4]\<rparr>)
     = WPN_CTRL_STATE_RTL \<and>
   (let (r, w', s') = requestStateChange [7 \<mapsto> 30] WPN_CTRL_STATE_LAUNCH 7
         ((new_weapon 3)\<lparr>m_currentState := WPN_CTRL_STATE_RTL, m_observers := [4]\<rparr>, new_weapon_sys)
    in r = failure ''Launch sequence aborted'' \<and> m_currentState w' = WPN_CTRL_STATE_ABORT \<and>
       \<not> weapon.m_launched w' \<and>
       log s' = [StateSet WPN_CTRL_STATE_RTL WPN_CTRL_STATE_LAUNCH,
                 OnStateChanged 4 0 WPN_CTRL_STATE_RTL WPN_CTRL_STATE_LAUNCH,
                 StateSet WPN_CTRL_STATE_LAUNCH WPN_CTRL_STATE_ABORT,
                 OnStateChanged 4 0 WPN_CTRL_STATE_LAUNCH WPN_CTRL_STATE_ABORT])"
  using launch_from_rtl
          [of "(new_weapon 3)\<lparr>m_currentState := WPN_CTRL_STATE_RTL, m_observers := [4]\<rparr>"
              "[7 \<mapsto> 30]" 7 new_weapon_sys
              "fst (requestStateChange [7 \<mapsto> 30] WPN_CTRL_STATE_LAUNCH 7
                 ((new_weapon 3)\<lparr>m_currentState := WPN_CTRL_STATE_RTL, m_observers := [4]\<rparr>,
                  new_weapon_sys))"
              "fst (snd (requestStateChange [7 \<mapsto> 30] WPN_CTRL_STATE_LAUNCH 7
                 ((new_weapon 3)\<lparr>m_currentState := WPN_CTRL_STATE_RTL, m_observers := [4]\<rparr>,
                  new_weapon_sys)))"
              "snd (snd (requestStateChange [7 \<mapsto> 30] WPN_CTRL_STATE_LAUNCH 7
                 ((new_weapon 3)\<lparr>m_currentState := WPN_CTRL_STATE_RTL, m_observers := [4]\<rparr>,
                  new_weapon_sys)))"]
  by (simp add: new_weapon_simps total_intervals_values isCancelled_def split_beta)

text \<open>
  The claim as stated fails: with the three default steps of one second (60 slices), a
  token that another thread cancels during the last slice has fired during a step, yet
  the launch completes and the weapon is in POST_LAUNCH.
\<close>

theorem launch_fired_in_last_slice:
  "\<not> isCancelled [7 \<mapsto> 59] 7 new_weapon_sys \<and>
   isCancelled [7 \<mapsto> 59] 7
     (snd (snd (requestStateChange [7 \<mapsto> 59] WPN_CTRL_STATE_LAUNCH 7
        ((new_weapon 3)\<lparr>m_currentState := WPN_CTRL_STATE_RTL\<rparr>, new_weapon_sys)))) \<and>
   fst (requestStateChange [7 \<mapsto> 59] WPN_CTRL_STATE_LAUNCH 7
        ((new_weapon 3)\<lparr>m_currentState := WPN_CTRL_STATE_RTL\<rparr>, new_weapon_sys)) = success \<and>
   m_currentState
     (fst (snd (requestStateChange [7 \<mapsto> 59] WPN_CTRL_STATE_LAUNCH 7
        ((new_weapon 3)\<lparr>m_currentState := WPN_CTRL_STATE_RTL\<rparr>, new_weapon_sys))))
     = WPN_CTRL_STATE_POST_LAUNCH"
  by (simp add: new_weapon_simps total_intervals_values isCancelled_def requestStateChange_def
        isValidTransition_def processLaunch_def setState_def notifyStateChanged_def
        notifyLaunchStatusChanged_def setLaunched_def
        sleepWithCancellationCheck_def sleep_for_def Let_def eval_nat_numeral)

text \<open>
  The case left out above can be reached. A weapon that has been launched, switched off
  and on again and is ready once more keeps its launched flag, so when a second launch
  completes, \<^verbatim>\<open>setLaunched(true)\<close> changes nothing: the request succeeds and the weapon
  stays in LAUNCH.
\<close>

lemma second_launch_stays_in_launch:
  "fst (requestStateChange Map.empty WPN_CTRL_STATE_LAUNCH 9
          (weapon_run Map.empty
             [RequestStateChange WPN_CTRL_STATE_ON 5, SetFireSolutionReady True, Update,
              RequestStateChange WPN_CTRL_STATE_LAUNCH 6,
              RequestStateChange WPN_CTRL_STATE_OFF 7,
              RequestStateChange WPN_CTRL_STATE_ON 8, Update]
             (new_weapon (1/10), new_weapon_sys))) = success \<and>
   m_currentState (fst (snd (requestStateChange Map.empty WPN_CTRL_STATE_LAUNCH 9
          (weapon_run Map.empty
             [RequestStateChange WPN_CTRL_STATE_ON 5, SetFireSolutionReady True, Update,
              RequestStateChange WPN_CTRL_STATE_LAUNCH 6,
              RequestStateChange WPN_CTRL_STATE_OFF 7,
              RequestStateChange WPN_CTRL_STATE_ON 8, Update]
             (new_weapon (1/10), new_weapon_sys))))) = WPN_CTRL_STATE_LAUNCH"
  by (simp add: weapon_run_def new_weapon_simps total_intervals_values isCancelled_def
        requestStateChange_def isValidTransition_def processTurnOn_def processTurnOff_def
        processLaunch_def setState_def notifyStateChanged_def notifyLaunchStatusChanged_def
        setLaunched_def update_def checkInterlockConditions_def setFireSolutionReady_def
        cancel_def sleepWithCancellationCheck_def sleep_for_def Let_def eval_nat_numeral)

subsection \<open>The transitions of a run\<close>

lemma log_ok_clock [simp]: "log_ok (s\<lparr>clock := c\<rparr>) = log_ok s"
  by (simp add: log_ok_def)

lemma log_ok_cancel [simp]: "log_ok (cancel t s) = log_ok s"
  by (simp add: log_ok_def cancel_def)

lemma setState_eq:
  "setState st (w, s) =
     (w\<lparr>m_currentState := st\<rparr>,
      s\<lparr>log := log s @ StateSet (m_currentState w) st #
           (if m_currentState w \<noteq> st
            then map (\<lambda>ob. OnStateChanged ob (weapon.m_tubeNumber w) (m_currentState w) st) (m_observers w)
            else [])\<rparr>)"
  by (simp add: setState_def notifyStateChanged_def Let_def)

lemma log_ok_setState:
  "log_ok (snd (setState st (w, s))) = (log_ok s \<and> committed_transition (StateSet (m_currentState w) st))"
  by (simp add: setState_eq log_ok_def list_all_iff) auto

lemma log_ok_notifyLaunch [simp]: "log_ok (notifyLaunchStatusChanged b w s) = log_ok s"
  by (simp add: notifyLaunchStatusChanged_def log_ok_def list_all_iff) auto

lemma log_ok_setLaunched: "log_ok s \<Longrightarrow> log_ok (snd (setLaunched b (w, s)))"
  by (simp add: setLaunched_def Let_def log_ok_setState internal_transition_def)

lemma log_ok_update: "log_ok s \<Longrightarrow> log_ok (snd (update (w, s)))"
  by (simp add: update_def Let_def log_ok_setState internal_transition_def)

lemma log_ok_reset: "log_ok s \<Longrightarrow> log_ok (snd (reset (w, s)))"
  by (simp add: reset_def Let_def log_ok_def cancel_def)

lemma log_ok_sleep: "log_ok (snd (sleep_loop ext n tok cur s)) = log_ok s"
  using sleep_loop_result [of ext n tok cur s] by auto


lemma log_ok_launch_loop: "log_ok s \<Longrightarrow> log_ok (snd (snd (launch_loop ext steps tok (w, s))))"
proof (induction steps arbitrary: s)
  case Nil
  then show ?case by (simp add: log_ok_setLaunched)
next
  case (Cons step steps)
  obtain b s1 where sl: "sleepWithCancellationCheck ext (duration step) tok w s = (b, s1)"
    by (cases "sleepWithCancellationCheck ext (duration step) tok w s")
  have s1: "log_ok s1"
    using log_ok_sleep [of ext "nat (total_intervals (duration step))" tok "m_currentCancellationToken w" s]
      Cons.prems sl
    by (simp add: sleepWithCancellationCheck_def)
  have ab: "\<And>s0. log_ok s0 \<Longrightarrow> log_ok (snd (setState WPN_CTRL_STATE_ABORT (w, s0)))"
    by (simp add: log_ok_setState in_table_or_abort_def)
  show ?case
    using Cons.prems s1 sl ab Cons.IH [OF s1] by simp
qed

lemma valid_to_OFF:
  "isValidTransition c WPN_CTRL_STATE_OFF \<Longrightarrow> in_table_or_abort c WPN_CTRL_STATE_OFF"
  by (cases c) (simp_all add: isValidTransition_def in_table_or_abort_def transition_table_def)

lemma valid_to_ON: "isValidTransition c WPN_CTRL_STATE_ON \<Longrightarrow> c = WPN_CTRL_STATE_OFF"
  by (cases c) (simp_all add: isValidTransition_def)

lemma valid_to_LAUNCH: "isValidTransition c WPN_CTRL_STATE_LAUNCH \<Longrightarrow> c = WPN_CTRL_STATE_RTL"
  by (cases c) (simp_all add: isValidTransition_def)

lemma log_ok_processTurnOff:
  "log_ok s \<Longrightarrow> isValidTransition (m_currentState w) WPN_CTRL_STATE_OFF \<Longrightarrow>
   log_ok (snd (snd (processTurnOff (w, s))))"
  by (simp add: processTurnOff_def Let_def log_ok_setState valid_to_OFF)

lemma log_ok_processTurnOn:
  assumes "log_ok s" "m_currentState w = WPN_CTRL_STATE_OFF"
  shows "log_ok (snd (snd (processTurnOn ext tok (w, s))))"
proof -
  define w1 where "w1 = fst (setState WPN_CTRL_STATE_POC (w, s))"
  define s1 where "s1 = snd (setState WPN_CTRL_STATE_POC (w, s))"
  have s1: "log_ok s1"
    using assms by (simp add: s1_def log_ok_setState internal_transition_def)
  have w1: "m_currentState w1 = WPN_CTRL_STATE_POC" by (simp add: w1_def setState_eq)
  obtain b s2 where sl: "sleepWithCancellationCheck ext (m_onDelay w1) tok w1 s1 = (b, s2)"
    by (cases "sleepWithCancellationCheck ext (m_onDelay w1) tok w1 s1")
  have s2: "log_ok s2"
    using log_ok_sleep [of ext "nat (total_intervals (m_onDelay w1))" tok "m_currentCancellationToken w1" s1]
      s1 sl
    by (simp add: sleepWithCancellationCheck_def)
  have "processTurnOn ext tok (w, s) =
          (if \<not> b then (failure ''Power-on check cancelled'', setState WPN_CTRL_STATE_OFF (w1, s2))
           else (success, setState WPN_CTRL_STATE_ON (w1, s2)))"
    using sl by (simp add: processTurnOn_def w1_def s1_def split_beta)
  then show ?thesis
    using s2 w1 by (simp add: log_ok_setState internal_transition_def)
qed

lemma log_ok_processLaunch:
  assumes "log_ok s" "m_currentState w = WPN_CTRL_STATE_RTL"
  shows "log_ok (snd (snd (processLaunch ext tok (w, s))))"
proof -
  have "log_ok (snd (setState WPN_CTRL_STATE_LAUNCH (w, s)))"
    using assms by (simp add: log_ok_setState in_table_or_abort_def transition_table_def)
  then show ?thesis
    using log_ok_launch_loop
      [of "snd (setState WPN_CTRL_STATE_LAUNCH (w, s))" ext
          "m_launchSteps (fst (setState WPN_CTRL_STATE_LAUNCH (w, s)))" tok
          "fst (setState WPN_CTRL_STATE_LAUNCH (w, s))"]
    by (simp add: processLaunch_def split_beta)
qed

lemma log_ok_requestStateChange:
  assumes "log_ok s"
  shows "log_ok (snd (snd (requestStateChange ext newState tok (w, s))))"
proof (cases newState)
  case WPN_CTRL_STATE_OFF
  with assms show ?thesis
    by (simp add: requestStateChange_def Let_def log_ok_processTurnOff)
next
  case WPN_CTRL_STATE_ON
  with assms show ?thesis
    by (simp add: requestStateChange_def Let_def log_ok_processTurnOn valid_to_ON)
next
  case WPN_CTRL_STATE_LAUNCH
  with assms show ?thesis
    by (simp add: requestStateChange_def Let_def log_ok_processLaunch valid_to_LAUNCH)
next
  case WPN_CTRL_STATE_ABORT
  with assms show ?thesis
    by (simp add: requestStateChange_def processAbort_def Let_def log_ok_setState in_table_or_abort_def)
qed (use assms in \<open>simp_all add: requestStateChange_def Let_def isValidTransition_internal_targets\<close>)

lemma log_ok_weapon_step: "log_ok (snd ws) \<Longrightarrow> log_ok (snd (weapon_step ext x ws))"
  by (cases ws; cases x)
     (simp_all add: log_ok_requestStateChange log_ok_update log_ok_setLaunched log_ok_reset)

lemma log_ok_weapon_run: "log_ok (snd ws) \<Longrightarrow> log_ok (snd (weapon_run ext ops ws))"
  unfolding weapon_run_def
  by (induction ops arbitrary: ws) (simp_all add: log_ok_weapon_step)

text \<open>
  C2 (as amended). Along every run of weapon operations, every exchange of the control
  state is a pair of the transition table, or goes to ABORT, or is one of the weapon's own
  transitions: OFF to POC, POC to ON, POC to OFF, ON to RTL, RTL to ON, or any state to
  POST_LAUNCH (\<^verbatim>\<open>setLaunched(true)\<close>). \<^verbatim>\<open>reset\<close> stores OFF from any state.
\<close>

theorem committed_transitions_allowed:
  "log_ok s \<Longrightarrow> log_ok (snd (weapon_run ext ops (w, s)))"
  using log_ok_weapon_run [of "(w, s)" ext ops] by simp

theorem committed_transitions_allowed_witness:
  "log_ok new_weapon_sys \<and>
   log_ok (snd (weapon_run Map.empty
                  [RequestStateChange WPN_CTRL_STATE_ON 5, SetFireSolutionReady True, Update,
                   RequestStateChange WPN_CTRL_STATE_LAUNCH 6, ResetWeapon]
                  (new_weapon (1/10), new_weapon_sys)))"
proof -
  have h: "log_ok new_weapon_sys"
    by (simp add: log_ok_def new_weapon_simps)
  show ?thesis
    using h committed_transitions_allowed [OF h] by simp
qed

text \<open>
  The claim as stated fails on the first request for ON: the state goes from OFF to POC,
  which is no pair of the table and is not ABORT.
\<close>

theorem turn_on_commits_off_to_poc:
  "\<not> list_all claimed_transition
       (log (snd (weapon_run Map.empty [RequestStateChange WPN_CTRL_STATE_ON 5]
                    (new_weapon (1/10), new_weapon_sys))))"
  by (simp add: weapon_run_def new_weapon_simps total_intervals_values isCancelled_def
        requestStateChange_def isValidTransition_def processTurnOn_def setState_def
        notifyStateChanged_def sleepWithCancellationCheck_def sleep_for_def Let_def
        in_table_or_abort_def transition_table_def eval_nat_numeral)

section \<open>Properties of the emergency stop\<close>

lemma requests_append [simp]: "requests (xs @ ys) = requests xs @ requests ys"
  by (simp add: requests_def)

lemma requests_Cons [simp]: "requests (x # xs) = request_of x @ requests xs"
  by (simp add: requests_def)

lemma requests_Nil [simp]: "requests [] = []"
  by (simp add: requests_def)

lemma requests_notify [simp]:
  "requests (map (\<lambda>ob. OnStateChanged ob t a b) obs) = []"
  by (induction obs) simp_all

lemma requests_requestStateChange:
  assumes "st = WPN_CTRL_STATE_OFF \<or> st = WPN_CTRL_STATE_ABORT"
  shows "requests (log (snd (snd (requestStateChange ext st tok (w, s))))) = requests (log s)"
  using assms
  by (auto simp: requestStateChange_def processAbort_def processTurnOff_def cancel_def
        setState_eq Let_def)

lemma requestWeaponStateChange_log:
  assumes "st = WPN_CTRL_STATE_OFF \<or> st = WPN_CTRL_STATE_ABORT" "m_weapon tube = Some w"
  shows "requests (log (snd (snd (requestWeaponStateChange ext st tok (tube, s))))) =
           requests (log s) @ [(m_tubeNumber tube, st, flags s tok)]"
    and "m_tubeNumber (fst (snd (requestWeaponStateChange ext st tok (tube, s)))) = m_tubeNumber tube"
proof -
  define s1 where "s1 = s\<lparr>log := log s @ [Requested (m_tubeNumber tube) st tok (flags s tok)]\<rparr>"
  have "requests (log (snd (snd (requestStateChange ext st tok (w, s1))))) = requests (log s1)"
    using assms(1) by (rule requests_requestStateChange)
  then show "requests (log (snd (snd (requestWeaponStateChange ext st tok (tube, s))))) =
           requests (log s) @ [(m_tubeNumber tube, st, flags s tok)]"
    using assms(2) by (simp add: requestWeaponStateChange_def s1_def split_beta Let_def)
  show "m_tubeNumber (fst (snd (requestWeaponStateChange ext st tok (tube, s)))) = m_tubeNumber tube"
    using assms(2) by (simp add: requestWeaponStateChange_def split_beta Let_def)
qed

lemma tubes_at_update:
  "i \<notin> set places \<Longrightarrow>
   tubes_at (mgr\<lparr>m_launchTubes := (m_launchTubes mgr)[i := x]\<rparr>) places = tubes_at mgr places"
  by (induction places) (auto simp: tubes_at_def)

lemma emergencyStop_loop_requests:
  assumes "distinct places"
    and "\<forall>i \<in> set places. \<exists>tube. m_launchTubes mgr ! i = Some tube \<and> hasWeapon tube"
  shows "requests (log (snd (snd (emergencyStop_loop ext places acc (mgr, s))))) =
           requests (log s) @
           map (\<lambda>tube. (m_tubeNumber tube, emergency_target tube,
                        emergency_target tube = WPN_CTRL_STATE_ABORT))
               (tubes_at mgr places)"
  using assms
proof (induction places arbitrary: acc mgr s)
  case Nil
  show ?case by (simp add: tubes_at_def)
next
  case (Cons i rest)
  then obtain tube w where tube: "m_launchTubes mgr ! i = Some tube" "m_weapon tube = Some w"
    by (auto simp: hasWeapon_def)
  obtain allSuccess errors where acc: "acc = (allSuccess, errors)" by (cases acc)
  define st where "st = emergency_target tube"
  define tok where "tok = fresh s"
  define s1 where "s1 = snd (new_token s)"
  define s2 where "s2 = (if st = WPN_CTRL_STATE_ABORT then cancel tok s1 else s1)"
  define res where "res = requestWeaponStateChange ext st tok (tube, s2)"
  define mgr1 where "mgr1 = mgr\<lparr>m_launchTubes := (m_launchTubes mgr)[i := Some (fst (snd res))]\<rparr>"
  have st: "st = WPN_CTRL_STATE_OFF \<or> st = WPN_CTRL_STATE_ABORT"
    by (simp add: st_def emergency_target_def)
  have flag: "flags s2 tok = (st = WPN_CTRL_STATE_ABORT)"
    by (simp add: s2_def s1_def tok_def new_token_def cancel_def)
  have req2: "requests (log s2) = requests (log s)"
    by (simp add: s2_def s1_def new_token_def cancel_def)
  have lg: "requests (log (snd (snd res))) = requests (log s) @ [(m_tubeNumber tube, st, st = WPN_CTRL_STATE_ABORT)]"
    unfolding res_def using requestWeaponStateChange_log(1) [OF st tube(2), of ext tok s2] flag req2
    by simp
  have rest: "i \<notin> set rest" "distinct rest" using Cons.prems(1) by simp_all
  have rest_tubes: "\<forall>j \<in> set rest. \<exists>t. m_launchTubes mgr1 ! j = Some t \<and> hasWeapon t"
  proof
    fix j assume j: "j \<in> set rest"
    with rest(1) have "j \<noteq> i" by auto
    then have "m_launchTubes mgr1 ! j = m_launchTubes mgr ! j"
      by (simp add: mgr1_def)
    with Cons.prems(2) j show "\<exists>t. m_launchTubes mgr1 ! j = Some t \<and> hasWeapon t"
      by simp
  qed
  have unfold: "\<exists>acc1. emergencyStop_loop ext (i # rest) acc (mgr, s) =
                  emergencyStop_loop ext rest acc1 (mgr1, snd (snd res))"
    using tube
    by (simp add: acc new_token_def Let_def split_beta st_def [symmetric] emergency_target_def [symmetric]
          tok_def [symmetric] s1_def s2_def res_def mgr1_def split: sum.splits)
       (auto simp: st_def emergency_target_def tok_def new_token_def Let_def)
  then obtain acc1 where step: "emergencyStop_loop ext (i # rest) acc (mgr, s) =
                  emergencyStop_loop ext rest acc1 (mgr1, snd (snd res))" by blast
  have "tubes_at mgr1 rest = tubes_at mgr rest"
    unfolding mgr1_def using rest(1) by (rule tubes_at_update)
  moreover have "tubes_at mgr (i # rest) = tube # tubes_at mgr rest"
    using tube by (simp add: tubes_at_def)
  ultimately have ta: "tubes_at mgr (i # rest) = tube # tubes_at mgr1 rest"
    by simp
  show ?case
    unfolding step ta
    using Cons.IH [OF rest(2) rest_tubes, of acc1 "snd (snd res)"] lg
    by (simp add: st_def)
qed

text \<open>
  C9. On a manager whose vector of tubes is as \<^verbatim>\<open>initialize\<close> leaves it, an emergency stop
  hands exactly one request to each assigned tube, in the order of the tubes: ABORT if the
  tube's weapon is in LAUNCH and OFF otherwise. The flag of the token that goes with the
  request is set if and only if the request is for ABORT, so it is set for every ABORT.
\<close>

theorem emergency_stop_requests:
  assumes "length (m_launchTubes mgr) = Suc (m_maxTubeNumber mgr)"
    and "m_maxTubeNumber mgr < 65535"
  shows "requests (log (snd (snd (emergencyStop ext (mgr, s))))) =
           requests (log s) @
           map (\<lambda>tube. (m_tubeNumber tube, emergency_target tube,
                        emergency_target tube = WPN_CTRL_STATE_ABORT))
               (tubes_at mgr (getAssignedTubes mgr)) \<and>
         length (tubes_at mgr (getAssignedTubes mgr)) = length (getAssignedTubes mgr)"
proof -
  have d: "distinct (getAssignedTubes mgr)"
    by (simp add: getAssignedTubes_def)
  have a: "\<forall>i \<in> set (getAssignedTubes mgr).
             \<exists>tube. m_launchTubes mgr ! i = Some tube \<and> hasWeapon tube"
    by (auto simp: getAssignedTubes_def split: option.splits)
  have len: "\<And>places. \<forall>i \<in> set places. \<exists>tube. m_launchTubes mgr ! i = Some tube \<and> hasWeapon tube
               \<Longrightarrow> length (tubes_at mgr places) = length places"
    subgoal for places by (induction places) (auto simp: tubes_at_def)
    done
  have "snd (snd (emergencyStop ext (mgr, s))) =
        snd (snd (emergencyStop_loop ext (getAssignedTubes mgr) (True, []) (mgr, s)))"
    by (simp add: emergencyStop_def Let_def split_beta)
  then show ?thesis
    using emergencyStop_loop_requests [OF d a, of ext "(True, [])" s] len [OF a] by simp
qed

theorem emergency_stop_requests_witness:
  "length (m_launchTubes two_tubes) = Suc (m_maxTubeNumber two_tubes) \<and>
   m_maxTubeNumber two_tubes < 65535 \<and>
   getAssignedTubes two_tubes = [1, 2] \<and>
   requests (log (snd (snd (emergencyStop Map.empty (two_tubes, new_weapon_sys))))) =
     [(1, WPN_CTRL_STATE_ABORT, True), (2, WPN_CTRL_STATE_OFF, False)]"
proof -
  have h1: "length (m_launchTubes two_tubes) = Suc (m_maxTubeNumber two_tubes)"
    by (simp add: two_tubes_def)
  have h2: "m_maxTubeNumber two_tubes < 65535"
    by (simp add: two_tubes_def)
  have places: "getAssignedTubes two_tubes = [1, 2]"
    by (simp add: getAssignedTubes_def two_tubes_def hasWeapon_def upt_rec)
  show ?thesis
    using h1 h2 places emergency_stop_requests [OF h1 h2, of Map.empty new_weapon_sys]
    by (simp add: tubes_at_def two_tubes_def emergency_target_def getWeaponState_def
          new_weapon_simps)
qed

section \<open>Properties of the engagement managers\<close>

lemma calc_keeps_target [simp]:
  "m_hasValidTarget (snd (Missile_calculateEngagementPlan to_3d m)) = m_hasValidTarget m"
  "m_systemTargetId (snd (Missile_calculateEngagementPlan to_3d m)) = m_systemTargetId m"
  by (simp_all add: Missile_calculateEngagementPlan_def Missile_calculateTrajectory_def Let_def)

lemma missile_step_target:
  "m_hasValidTarget (missile_step to_3d x m) =
     (case x of
        SetTargetPosition p \<Rightarrow> True
      | SetSystemTarget i \<Rightarrow> False
      | UpdateTargetInfo trk \<Rightarrow>
          (m_systemTargetId m \<noteq> 0 \<and> unTargetSystemID trk = m_systemTargetId m) \<or> m_hasValidTarget m
      | _ \<Rightarrow> m_hasValidTarget m)"
  "m_systemTargetId (missile_step to_3d x m) =
     (case x of
        SetTargetPosition p \<Rightarrow> 0
      | SetSystemTarget i \<Rightarrow> i
      | _ \<Rightarrow> m_systemTargetId m)"
  by (cases x; simp add: setTargetPosition_def setSystemTarget_def updateTargetInfo_def
        Missile_updateWaypoints_def EngagementManagerBase_initialize_def
        EngagementManagerBase_reset_def)+

lemma last_designation_snoc:
  "last_designation (ops @ [x]) =
     (case x of
        SetTargetPosition p \<Rightarrow> Some (DirectPosition, [])
      | SetSystemTarget i \<Rightarrow> Some (SystemTarget i, [])
      | _ \<Rightarrow> map_option (\<lambda>(d, after). (d, after @ [x])) (last_designation ops))"
  by (induction ops) (auto split: missile_op.splits option.splits)

lemma track_received_snoc:
  "track_received i (ops @ [x]) =
     (track_received i ops \<or> (case x of UpdateTargetInfo trk \<Rightarrow> unTargetSystemID trk = i | _ \<Rightarrow> False))"
  by (simp add: track_received_def)

lemma missile_run_snoc:
  "missile_run to_3d (ops @ [x]) m = missile_step to_3d x (missile_run to_3d ops m)"
  by (simp add: missile_run_def)

lemma missile_run_invariant:
  "m_hasValidTarget (missile_run to_3d ops (MissileEngagementManager cls kind)) =
     spec_has_valid_target ops \<and>
   m_systemTargetId (missile_run to_3d ops (MissileEngagementManager cls kind)) = designated_id ops"
proof (induction ops rule: rev_induct)
  case Nil
  show ?case
    by (simp add: missile_run_def MissileEngagementManager_def spec_has_valid_target_def
          designated_id_def)
next
  case (snoc x ops)
  then show ?case
    unfolding missile_run_snoc missile_step_target
    by (cases x)
       (auto simp: spec_has_valid_target_def designated_id_def last_designation_snoc
          track_received_snoc track_received_def
          split: option.splits designation.splits)
qed

text \<open>
  C6. A missile manager without a valid target answers \<^verbatim>\<open>calculateEngagementPlan\<close> with
  the failure \<open>No valid target set\<close> and marks the engagement result invalid, changing
  nothing else. After any run of calls on a new manager, \<open>hasValidTarget\<close> is true exactly
  when the specification says so: the last designation was a direct position, or it was a
  system target id other than 0 and a track with that id has been received since.
\<close>

theorem missile_target_validity:
  "(\<not> hasValidTarget m \<longrightarrow>
      Missile_calculateEngagementPlan to_3d m =
        (failure ''No valid target set'',
         m\<lparr>m_engagementResult := (m_engagementResult m)\<lparr>isValid := False\<rparr>\<rparr>)) \<and>
   hasValidTarget (missile_run to_3d ops (MissileEngagementManager cls kind)) =
     spec_has_valid_target ops"
  using missile_run_invariant [of to_3d ops cls kind]
  by (simp add: hasValidTarget_def Missile_calculateEngagementPlan_def)

theorem missile_target_validity_witness:
  "\<not> hasValidTarget (MissileEngagementManager ASMEngagementManager WPN_KIND_ASM) \<and>
   fst (Missile_calculateEngagementPlan (\<lambda>_. zero_position)
          (MissileEngagementManager ASMEngagementManager WPN_KIND_ASM)) =
     failure ''No valid target set'' \<and>
   \<not> isValid (m_engagementResult (snd (Missile_calculateEngagementPlan (\<lambda>_. zero_position)
          (MissileEngagementManager ASMEngagementManager WPN_KIND_ASM)))) \<and>
   \<not> hasValidTarget (missile_run (\<lambda>_. zero_position) [SetSystemTarget 42]
          (MissileEngagementManager ASMEngagementManager WPN_KIND_ASM)) \<and>
   hasValidTarget (missile_run (\<lambda>_. zero_position)
          [SetSystemTarget 42,
           UpdateTargetInfo \<lparr>unTargetSystemID = 42, stGeodeticPosition = zero_position\<rparr>]
          (MissileEngagementManager ASMEngagementManager WPN_KIND_ASM))"
proof -
  have h: "\<not> hasValidTarget (MissileEngagementManager ASMEngagementManager WPN_KIND_ASM)"
    by (simp add: hasValidTarget_def MissileEngagementManager_def)
  show ?thesis
    using h
      missile_target_validity
        [of "MissileEngagementManager ASMEngagementManager WPN_KIND_ASM" "\<lambda>_. zero_position"
            "[SetSystemTarget 42]" ASMEngagementManager WPN_KIND_ASM]
      missile_target_validity
        [of "MissileEngagementManager ASMEngagementManager WPN_KIND_ASM" "\<lambda>_. zero_position"
            "[SetSystemTarget 42,
              UpdateTargetInfo \<lparr>unTargetSystemID = 42, stGeodeticPosition = zero_position\<rparr>]"
            ASMEngagementManager WPN_KIND_ASM]
    by (simp add: spec_has_valid_target_def track_received_def)
qed

text \<open>
  C7. A list of more than 8 waypoints is refused by the missile manager and by the mine
  manager with their \<open>Too many waypoints\<close> failures, and the manager (its waypoints and its
  engagement result with it) is returned as it was. A list of exactly 8 passes the cap in
  both: it becomes the stored list. The mine manager then succeeds; the missile manager
  goes on to plan, which succeeds if it has a valid target and fails with
  \<open>No valid target set\<close> if not.
\<close>

theorem waypoint_cap:
  "(8 < length wps \<longrightarrow>
      Missile_updateWaypoints to_3d wps m = (failure ''Too many waypoints for missile (max 8)'', m) \<and>
      updateDropPlanWaypoints wps mm = (failure ''Too many waypoints for mine (max 8)'', mm)) \<and>
   (length wps = 8 \<longrightarrow>
      m_waypoints (snd (Missile_updateWaypoints to_3d wps m)) = wps \<and>
      fst (Missile_updateWaypoints to_3d wps m) =
        (if hasValidTarget m then success else failure ''No valid target set'') \<and>
      m_waypoints (snd (updateDropPlanWaypoints wps mm)) = wps \<and>
      fst (updateDropPlanWaypoints wps mm) = success)"
  by (simp add: Missile_updateWaypoints_def updateDropPlanWaypoints_def
        Missile_calculateEngagementPlan_def Missile_calculateTrajectory_def
        Mine_calculateEngagementPlan_def Mine_calculateTrajectory_def hasValidTarget_def Let_def)

theorem waypoint_cap_witness:
  "8 < length (replicate 9 zero_waypoint) \<and> length (replicate 8 zero_waypoint) = 8 \<and>
   Missile_updateWaypoints (\<lambda>_. zero_position) (replicate 9 zero_waypoint)
      (MissileEngagementManager ALMEngagementManager WPN_KIND_ALM) =
     (failure ''Too many waypoints for missile (max 8)'',
      MissileEngagementManager ALMEngagementManager WPN_KIND_ALM) \<and>
   updateDropPlanWaypoints (replicate 9 zero_waypoint) MineEngagementManager =
     (failure ''Too many waypoints for mine (max 8)'', MineEngagementManager) \<and>
   m_waypoints (snd (updateDropPlanWaypoints (replicate 8 zero_waypoint) MineEngagementManager)) =
     replicate 8 zero_waypoint \<and>
   fst (updateDropPlanWaypoints (replicate 8 zero_waypoint) MineEngagementManager) = success"
  using waypoint_cap [of "replicate 9 zero_waypoint" "\<lambda>_. zero_position"
                         "MissileEngagementManager ALMEngagementManager WPN_KIND_ALM"
                         MineEngagementManager]
        waypoint_cap [of "replicate 8 zero_waypoint" "\<lambda>_. zero_position"
                         "MissileEngagementManager ALMEngagementManager WPN_KIND_ALM"
                         MineEngagementManager]
  by simp

section \<open>Properties of the mine drop plan service\<close>

lemma validatePosition_range: "validatePosition p = position_in_range p"
  by (auto simp: validatePosition_def position_in_range_def)

lemma validate_waypoints_from_eq:
  "validate_waypoints_from i plan =
     (\<forall>j. i \<le> j \<and> j < min (usWaypointCnt plan) 8 \<longrightarrow> validatePosition (stWaypoint plan ! j))"
proof (induction i plan rule: validate_waypoints_from.induct)
  case (1 i plan)
  show ?case
  proof (cases "i < usWaypointCnt plan \<and> i < 8")
    case False
    then show ?thesis
      by (subst validate_waypoints_from.simps) auto
  next
    case True
    show ?thesis
    proof (cases "validatePosition (stWaypoint plan ! i)")
      case False
      with True show ?thesis
        by (subst validate_waypoints_from.simps) auto
    next
      case v: True
      have "validate_waypoints_from i plan = validate_waypoints_from (Suc i) plan"
        using True v by (subst validate_waypoints_from.simps) simp
      also have "\<dots> = (\<forall>j. Suc i \<le> j \<and> j < min (usWaypointCnt plan) 8 \<longrightarrow>
                          validatePosition (stWaypoint plan ! j))"
        using "1.IH" True v by simp
      also have "\<dots> = (\<forall>j. i \<le> j \<and> j < min (usWaypointCnt plan) 8 \<longrightarrow>
                          validatePosition (stWaypoint plan ! j))"
        using v by (metis Suc_leD Suc_leI le_neq_implies_less)
      finally show ?thesis .
    qed
  qed
qed

text \<open>
  C8 (as amended). \<^verbatim>\<open>validatePlan\<close> accepts a plan exactly when its plan number is not 0,
  its launch and drop positions are in range (latitude in [-90, 90], longitude in
  [-180, 180], depth in [-1000, 10000]) and each of its first min(count, 8) waypoints is
  in range. The waypoint count itself is not checked.
\<close>

theorem validatePlan_accepts:
  assumes "length (stWaypoint plan) = 8"
  shows "validatePlan plan =
           (usDroppingPlanNumber plan \<noteq> 0 \<and>
            position_in_range (stLaunchPos plan) \<and> position_in_range (stDropPos plan) \<and>
            list_all position_in_range (take (min (usWaypointCnt plan) 8) (stWaypoint plan)))"
proof -
  have "list_all position_in_range (take (min (usWaypointCnt plan) 8) (stWaypoint plan)) =
        (\<forall>j. 0 \<le> j \<and> j < min (usWaypointCnt plan) 8 \<longrightarrow> validatePosition (stWaypoint plan ! j))"
    using assms by (auto simp: list_all_length validatePosition_range)
  then show ?thesis
    by (auto simp: validatePlan_def validate_waypoints_from_eq validatePosition_range)
qed

theorem validatePlan_accepts_witness:
  "length (stWaypoint nine_waypoints_plan) = 8 \<and> validatePlan nine_waypoints_plan \<and>
   \<not> validatePlan (nine_waypoints_plan\<lparr>usDroppingPlanNumber := 0\<rparr>)"
proof -
  have h: "length (stWaypoint nine_waypoints_plan) = 8"
    by (simp add: nine_waypoints_plan_def empty_plan_def)
  have h0: "length (stWaypoint (nine_waypoints_plan\<lparr>usDroppingPlanNumber := 0\<rparr>)) = 8"
    by (simp add: nine_waypoints_plan_def empty_plan_def)
  show ?thesis
    using h validatePlan_accepts [OF h] validatePlan_accepts [OF h0]
    by (simp add: nine_waypoints_plan_def empty_plan_def zero_waypoint_def position_in_range_def
          list_all_iff)
qed

text \<open>
  The claim as stated fails: a plan whose waypoint count is 9 and whose other fields are
  valid is accepted.
\<close>

theorem validatePlan_accepts_nine_waypoints:
  "validatePlan nine_waypoints_plan \<and> usWaypointCnt nine_waypoints_plan = 9 \<and>
   \<not> spec_valid_plan nine_waypoints_plan"
  by (simp add: nine_waypoints_plan_def empty_plan_def zero_waypoint_def validatePlan_def
        validatePosition_def spec_valid_plan_def validate_waypoints_from.simps)


text \<open>
  C5. Whatever is saved, loading the list afterwards succeeds (if the file can be opened)
  and puts the empty list in the cache: \<^verbatim>\<open>readJsonFromFile\<close> never reads the plans back.
  The witness saves one plan to list 3 and loads the list: the saved plan is gone.
\<close>

theorem load_after_save_is_empty:
  assumes "savePlanList show_double L P (svc, fs) = (Inr (), svc1, fs1)"
    and "readable fs1 (getPlanListFilePath svc L)"
  shows "loadPlanList L (svc1, fs1) =
           (success, svc1\<lparr>m_cachedPlans := (m_cachedPlans svc1)(L \<mapsto> [])\<rparr>, fs1) \<and>
         getPlanList (fst (snd (loadPlanList L (svc1, fs1)))) L = []"
  using assms
  by (auto simp: savePlanList_def loadPlanList_def savePlanListToFile_def writeJsonToFile_def
        loadPlanListFromFile_def readJsonFromFile_def getPlanList_def getPlanListFilePath_def
        isValidPlanListNumber_def failure_def success_def Let_def
        split: if_splits sum.splits prod.splits)

theorem load_after_save_is_empty_witness:
  "fst (savePlanList (\<lambda>_. ''0'') 3 [example_plan] (example_service, empty_filesystem)) = Inr () \<and>
   getPlanList (fst (snd (savePlanList (\<lambda>_. ''0'') 3 [example_plan]
                            (example_service, empty_filesystem)))) 3 = [example_plan] \<and>
   fst (loadPlanList 3 (snd (savePlanList (\<lambda>_. ''0'') 3 [example_plan]
                               (example_service, empty_filesystem)))) = success \<and>
   getPlanList (fst (snd (loadPlanList 3 (snd (savePlanList (\<lambda>_. ''0'') 3 [example_plan]
                               (example_service, empty_filesystem)))))) 3 = []"
proof -
  let ?r = "savePlanList (\<lambda>_. ''0'') 3 [example_plan] (example_service, empty_filesystem)"
  have v: "validatePlan example_plan"
    by (simp add: example_plan_def validatePlan_def validatePosition_def
          validate_waypoints_from.simps)
  have saved: "?r = (Inr (), fst (snd ?r), snd (snd ?r))"
    using v
    by (simp add: savePlanList_def savePlanListToFile_def writeJsonToFile_def
          isValidPlanListNumber_def example_service_def empty_filesystem_def success_def)
  have rd: "readable (snd (snd ?r)) (getPlanListFilePath example_service 3)"
    using v
    by (simp add: savePlanList_def savePlanListToFile_def writeJsonToFile_def
          isValidPlanListNumber_def example_service_def empty_filesystem_def success_def)
  have cached: "getPlanList (fst (snd ?r)) 3 = [example_plan]"
    using v
    by (simp add: savePlanList_def savePlanListToFile_def writeJsonToFile_def getPlanList_def
          isValidPlanListNumber_def example_service_def empty_filesystem_def success_def)
  have f: "fst ?r = Inr ()"
    using saved by (metis fst_conv)
  have pair: "(fst (snd ?r), snd (snd ?r)) = snd ?r"
    by simp
  note l = load_after_save_is_empty [OF saved rd, unfolded pair]
  have l1: "fst (loadPlanList 3 (snd ?r)) = success"
    using l by (metis fst_conv)
  have l2: "getPlanList (fst (snd (loadPlanList 3 (snd ?r)))) 3 = []"
    using l by blast
  show ?thesis
    using f cached l1 l2 by blast
qed

end
